theory Spec2Isabelle
  imports Complex_Main "HOL-Library.Sublist" "HOL-Library.AList"
begin

section \<open>NEXUS interview engine: gateway, orchestrator and report\<close>

text \<open>
  A shallow embedding of \<^verbatim>\<open>nexus_core/llm_gateway.py\<close>, \<^verbatim>\<open>nexus_core/structs.py\<close> and
  \<^verbatim>\<open>nexus_core/orchestrator.py\<close>.

  \<^item> The language-model provider is an oracle: a function from everything the gateway has
    done so far and the current request to either a text or an exception.
  \<^item> Python exceptions are values of type \<open>error\<close>; a function that can raise returns
    \<open>error + 'a\<close> together with the state it left behind, so that mutations made before
    a raise stay visible, as they do on the shared session objects of the source.
  \<^item> Python floats are modelled by the rational numbers they denote; binary rounding error
    of float arithmetic is outside the model.
  \<^item> \<^verbatim>\<open>SessionManager.save_session\<close> writes a file and changes nothing in memory; it is
    modelled as a step without effect that does not fail.
\<close>

subsection \<open>Exceptions and strings\<close>

text \<open>Every exception carries the text that \<^verbatim>\<open>str(e)\<close> returns.\<close>

datatype error =
    APIError string
  | RetryError string
  | RuntimeError string
  | ValueError string
  | IndexError string
  | AttributeError string
  | ValidationError string
  | ZeroDivisionError string

fun str_of :: "error \<Rightarrow> string" where
  "str_of (APIError m) = m"
| "str_of (RetryError m) = m"
| "str_of (RuntimeError m) = m"
| "str_of (ValueError m) = m"
| "str_of (IndexError m) = m"
| "str_of (AttributeError m) = m"
| "str_of (ValidationError m) = m"
| "str_of (ZeroDivisionError m) = m"

fun startswith :: "string \<Rightarrow> string \<Rightarrow> bool" where
  "startswith s [] = True"
| "startswith [] (p # ps) = False"
| "startswith (c # cs) (p # ps) = (c = p \<and> startswith cs ps)"

text \<open>Python's \<^verbatim>\<open>needle in s\<close> on strings.\<close>

fun str_contains :: "string \<Rightarrow> string \<Rightarrow> bool" where
  "str_contains needle [] = (needle = [])"
| "str_contains needle (c # cs) = (startswith (c # cs) needle \<or> str_contains needle cs)"

definition nl :: string where
  "nl = [CHR 0x0A]"

definition squote :: string where
  "squote = [CHR 0x27]"

definition dquote :: string where
  "dquote = [CHR 0x22]"

subsection \<open>The gateway (llm\_gateway.py)\<close>

type_synonym message = "string \<times> string"

text \<open>
  The gateway's history is ghost state: one \<open>Attempt model client result\<close> for each run
  of the body of \<^verbatim>\<open>_call_api_raw\<close> (the model asked, the client index read, how the run
  ended) and one \<open>Sleep secs\<close> for each backoff wait of the retry decorator.
\<close>

datatype event =
    Attempt string nat "error + string"
  | Sleep nat

text \<open>
  A provider maps the history, the client (by its index in \<^verbatim>\<open>self.clients\<close>), the model,
  the messages and the temperature to the content of the first choice, or to the exception
  that \<^verbatim>\<open>client.chat.completions.create\<close> or the access to its result raises. The content
  is a string, as the annotation \<^verbatim>\<open>-> str\<close> of \<^verbatim>\<open>_call_api_raw\<close> says.
\<close>

type_synonym provider = "event list \<Rightarrow> nat \<Rightarrow> string \<Rightarrow> message list \<Rightarrow> rat \<Rightarrow> error + string"

record gateway =
  clients :: "string list"
  current_client_idx :: nat
  primary_model :: string
  fallback_models :: "string list"
  history :: "event list"

text \<open>\<^verbatim>\<open>AsyncLLMGateway.__init__\<close>, from the keys that \<^verbatim>\<open>_load_api_keys\<close> found.\<close>

definition new_gateway :: "string list \<Rightarrow> error + gateway" where
  "new_gateway api_keys =
     (if api_keys = [] then Inl (ValueError ''No GROQ_API_KEY found'')
      else Inr \<lparr>clients = api_keys, current_client_idx = 0,
                primary_model = ''llama-3.3-70b-versatile'',
                fallback_models = [''qwen-2.5-32b'', ''llama-3.1-8b-instant''],
                history = []\<rparr>)"

text \<open>\<^verbatim>\<open>_get_client\<close>: the client at the pointer (named by its index), then the pointer moves on.\<close>

definition get_client :: "gateway \<Rightarrow> (error + nat) \<times> gateway" where
  "get_client g =
     (if current_client_idx g < length (clients g)
      then (Inr (current_client_idx g),
            g\<lparr>current_client_idx := (current_client_idx g + 1) mod length (clients g)\<rparr>)
      else (Inl (IndexError ''list index out of range''), g))"

definition record_event :: "event \<Rightarrow> gateway \<Rightarrow> gateway" where
  "record_event ev g = g\<lparr>history := history g @ [ev]\<rparr>"

text \<open>
  The body of \<^verbatim>\<open>_call_api_raw\<close>, one attempt. \<^verbatim>\<open>self._get_client()\<close> stands before the
  \<^verbatim>\<open>try\<close>, so its IndexError passes the handler by; an exception of the request whose
  text contains \<^verbatim>\<open>429\<close> moves the pointer once more before it is raised again.
\<close>

definition call_api_raw_attempt ::
  "provider \<Rightarrow> message list \<Rightarrow> string \<Rightarrow> rat \<Rightarrow> gateway \<Rightarrow> (error + string) \<times> gateway" where
  "call_api_raw_attempt P messages model temperature g =
     (case get_client g of
        (Inl e, g1) \<Rightarrow>
          (Inl e, record_event (Attempt model (current_client_idx g) (Inl e)) g1)
      | (Inr client, g1) \<Rightarrow>
          (case P (history g1) client model messages temperature of
             Inr content \<Rightarrow>
               (Inr content, record_event (Attempt model client (Inr content)) g1)
           | Inl e \<Rightarrow>
               (let g2 = (if str_contains ''429'' (str_of e)
                          then g1\<lparr>current_client_idx :=
                                   (current_client_idx g1 + 1) mod length (clients g1)\<rparr>
                          else g1)
                in (Inl e, record_event (Attempt model client (Inl e)) g2))))"

text \<open>
  The decorator \<^verbatim>\<open>@retry(stop=stop_after_attempt(3), wait=wait_exponential(multiplier=1,
  min=2, max=10), retry=retry_if_exception_type(Exception))\<close> of the tenacity library:
  the wait after attempt \<open>n\<close> is \<open>multiplier * 2 ^ (n - 1)\<close> clamped to \<open>[min, max]\<close>;
  after a failed attempt number \<open>stop_after_attempt\<close> the decorator raises RetryError.
\<close>

definition stop_after_attempt :: nat where
  "stop_after_attempt = 3"

definition wait_exponential :: "nat \<Rightarrow> nat" where
  "wait_exponential attempt_number = max 2 (min (1 * 2 ^ (attempt_number - 1)) 10)"

function retrying ::
  "provider \<Rightarrow> message list \<Rightarrow> string \<Rightarrow> rat \<Rightarrow> nat \<Rightarrow> gateway \<Rightarrow> (error + string) \<times> gateway" where
  "retrying P messages model temperature attempt_number g =
     (case call_api_raw_attempt P messages model temperature g of
        (Inr content, g1) \<Rightarrow> (Inr content, g1)
      | (Inl e, g1) \<Rightarrow>
          (if attempt_number \<ge> stop_after_attempt then (Inl (RetryError ''RetryError''), g1)
           else retrying P messages model temperature (attempt_number + 1)
                  (record_event (Sleep (wait_exponential attempt_number)) g1)))"
  by pat_completeness auto
termination
  by (relation "measure (\<lambda>(P, messages, model, temperature, attempt_number, g).
        stop_after_attempt - attempt_number)") auto

declare retrying.simps [simp del]

text \<open>\<^verbatim>\<open>_call_api_raw\<close> as callers see it: the body under the retry decorator.\<close>

definition call_api_raw ::
  "provider \<Rightarrow> message list \<Rightarrow> string \<Rightarrow> rat \<Rightarrow> gateway \<Rightarrow> (error + string) \<times> gateway" where
  "call_api_raw P messages model temperature g = retrying P messages model temperature 1 g"

text \<open>The \<^verbatim>\<open>for model in self.fallback_models\<close> loop of \<^verbatim>\<open>generate_text\<close>.\<close>

fun fallback_cascade ::
  "provider \<Rightarrow> message list \<Rightarrow> rat \<Rightarrow> string list \<Rightarrow> gateway \<Rightarrow> (error + string) \<times> gateway" where
  "fallback_cascade P messages temperature [] g = (Inl (RuntimeError ''All models failed.''), g)"
| "fallback_cascade P messages temperature (model # models) g =
     (case call_api_raw P messages model temperature g of
        (Inr content, g1) \<Rightarrow> (Inr content, g1)
      | (Inl e, g1) \<Rightarrow> fallback_cascade P messages temperature models g1)"

definition generate_text ::
  "provider \<Rightarrow> string \<Rightarrow> string \<Rightarrow> rat \<Rightarrow> gateway \<Rightarrow> (error + string) \<times> gateway" where
  "generate_text P system_prompt user_prompt temperature g =
     (let messages = [(''system'', system_prompt), (''user'', user_prompt)] in
      case call_api_raw P messages (primary_model g) temperature g of
        (Inr content, g1) \<Rightarrow> (Inr content, g1)
      | (Inl e, g1) \<Rightarrow> fallback_cascade P messages temperature (fallback_models g1) g1)"

text \<open>
  A response model (a Pydantic class) as the gateway uses it: its name, the text of its
  JSON schema, and \<open>decode\<close>, which stands for the clean-up of code fences, \<^verbatim>\<open>json.loads\<close>
  and \<^verbatim>\<open>model_validate\<close> together: \<open>None\<close> where JSONDecodeError or ValidationError is
  raised.
\<close>

record 'a response_model =
  model_name :: string
  json_schema :: string
  decode :: "string \<Rightarrow> 'a option"

definition generate_structured ::
  "provider \<Rightarrow> string \<Rightarrow> string \<Rightarrow> 'a response_model \<Rightarrow> gateway \<Rightarrow> (error + 'a) \<times> gateway" where
  "generate_structured P system_prompt user_prompt rm g =
     (let enhanced_system_prompt =
            system_prompt @ nl @ nl
            @ ''You must return a valid JSON object that strictly adheres to this schema:'' @ nl
            @ json_schema rm @ nl @ nl
            @ ''Return ONLY the JSON object. Do not wrap it in markdown code blocks.'' @ nl
      in case generate_text P enhanced_system_prompt user_prompt (1 / 5) g of
           (Inl e, g1) \<Rightarrow> (Inl e, g1)
         | (Inr raw_response, g1) \<Rightarrow>
             (case decode rm raw_response of
                Some v \<Rightarrow> (Inr v, g1)
              | None \<Rightarrow>
                  (Inl (ValueError (''LLM failed to generate valid JSON for '' @ model_name rm)),
                   g1)))"
subsection \<open>Reading the gateway's history\<close>









definition one_key_gateway :: gateway where
  "one_key_gateway = \<lparr>clients = [''gsk_a''], current_client_idx = 0,
     primary_model = ''llama-3.3-70b-versatile'',
     fallback_models = [''qwen-2.5-32b'', ''llama-3.1-8b-instant''], history = []\<rparr>"

definition rate_limited :: provider where
  "rate_limited h client model messages temperature =
     Inl (APIError ''Error code: 429 - rate limit reached'')"

definition two_key_gateway :: gateway where
  "two_key_gateway = \<lparr>clients = [''gsk_a'', ''gsk_b''], current_client_idx = 0,
     primary_model = ''llama-3.3-70b-versatile'',
     fallback_models = [''qwen-2.5-32b'', ''llama-3.1-8b-instant''], history = []\<rparr>"


subsection \<open>Data model (structs.py)\<close>

text \<open>
  Field names are those of the Pydantic models; where two models share a field name, or a
  name is taken by HOL (\<open>id\<close>), a prefix tells them apart. \<^verbatim>\<open>Optional[str]\<close> is
  \<open>string option\<close>, a \<^verbatim>\<open>Dict\<close> is an association list, \<^verbatim>\<open>datetime\<close> is its text.
\<close>

record Experience =
  exp_title :: string
  exp_company :: string
  duration :: string
  highlights :: "string list"

record Education =
  degree :: string
  institution :: string
  year :: string

record CVAnalysis =
  name :: "string option"
  skills :: "string list"
  experience_years :: rat
  experiences :: "Experience list"
  education :: "Education list"
  projects :: "string list"
  tools :: "string list"
  cv_summary :: string

record JDAnalysis =
  title :: string
  jd_company :: "string option"
  required_skills :: "string list"
  preferred_skills :: "string list"
  experience_required :: string
  education_required :: string
  key_responsibilities :: "string list"
  soft_skills :: "string list"
  jd_summary :: string

datatype priority = High | Medium | Low

record ProbeArea =
  area :: string
  reason :: string
  priority :: priority

record GapAnalysis =
  match_score :: rat
  matched_skills :: "string list"
  missing_skills :: "string list"
  experience_gap :: string
  education_match :: bool
  gap_strengths :: "string list"
  concerns :: "string list"
  probe_areas :: "ProbeArea list"

datatype category = Technical | Behavioral | Situational | Competency | Introduction | Closing

record Question =
  qid :: int
  question :: string
  target_area :: string
  category :: category
  rubric_focus :: string
  follow_up_hint :: "string option"

record ScoreDetail =
  score :: int
  evidence :: string
  reasoning :: string

record RubricScores =
  relevance :: ScoreDetail
  depth :: ScoreDetail
  competency :: ScoreDetail
  communication :: ScoreDetail

text \<open>
  \<open>answer_scores\<close> is the field \<^verbatim>\<open>AnswerScore.scores\<close>. No validator relates
  \<open>average_score\<close> to the four dimension scores: both come from the model's output.
\<close>

record AnswerScore =
  question_id :: int
  question_text :: string
  answer_text :: string
  chain_of_thought :: string
  answer_scores :: RubricScores
  average_score :: rat
  needs_follow_up :: bool
  follow_up_reason :: "string option"

datatype verdict = RECOMMEND | CONSIDER | DO_NOT_RECOMMEND

record Recommendation =
  recommendation :: verdict
  rec_summary :: string
  strengths :: "string list"
  areas_for_development :: "string list"
  hiring_confidence :: rat

record EyeContactMetric =
  timestamp :: rat
  gaze_on_screen :: bool
  confidence :: rat

datatype status = Idle | Setup | Ready | Interviewing | Completed | Error

record InterviewSession =
  session_id :: string
  created_at :: string
  status :: status
  cv_text :: string
  jd_text :: string
  cv_analysis :: "CVAnalysis option"
  jd_analysis :: "JDAnalysis option"
  gap_analysis :: "GapAnalysis option"
  questions :: "Question list"
  current_question_index :: int
  conversation_history :: "(string \<times> string) list list"
  scores :: "AnswerScore list"
  timings :: "(string \<times> string) list list"
  models_used :: "string list"
  followed_up_questions :: "int list"
  eye_contact_logs :: "EyeContactMetric list"

record FinalReport =
  report_session_id :: string
  generated_at :: string
  candidate :: CVAnalysis
  job :: JDAnalysis
  report_gap_analysis :: GapAnalysis
  interview_duration :: "string option"
  total_questions :: nat
  questions_answered :: nat
  rubric_scores :: "(string \<times> rat) list"
  per_question_scores :: "AnswerScore list"
  report_recommendation :: Recommendation
  report_transcript :: "(string \<times> string) list list"
  response_latencies :: "(string \<times> string) list list"
  model_info :: "(string \<times> string) list"

text \<open>\<^verbatim>\<open>InterviewSession()\<close> with its defaults; the uuid and the clock are arguments.\<close>

definition new_session :: "string \<Rightarrow> string \<Rightarrow> InterviewSession" where
  "new_session uuid now =
     \<lparr>session_id = uuid, created_at = now, status = Idle, cv_text = [], jd_text = [],
      cv_analysis = None, jd_analysis = None, gap_analysis = None, questions = [],
      current_question_index = 0, conversation_history = [], scores = [], timings = [],
      models_used = [], followed_up_questions = [], eye_contact_logs = []\<rparr>"

subsection \<open>Python built-ins the orchestrator uses\<close>

text \<open>\<^verbatim>\<open>xs[i]\<close>: a negative index counts from the end, an index out of range raises.\<close>

definition list_index :: "'a list \<Rightarrow> int \<Rightarrow> error + 'a" where
  "list_index xs i =
     (if 0 \<le> i \<and> i < int (length xs) then Inr (xs ! nat i)
      else if i < 0 \<and> - int (length xs) \<le> i then Inr (xs ! nat (int (length xs) + i))
      else Inl (IndexError ''list index out of range''))"

text \<open>\<^verbatim>\<open>a / b\<close> on numbers.\<close>

definition truediv :: "rat \<Rightarrow> rat \<Rightarrow> error + rat" where
  "truediv a b = (if b = 0 then Inl (ZeroDivisionError ''division by zero'') else Inr (a / b))"

text \<open>\<^verbatim>\<open>round(x, 2)\<close>: to the nearest multiple of 1/100, a tie to the even one.\<close>

definition round_half_even :: "rat \<Rightarrow> int" where
  "round_half_even y =
     (let f = \<lfloor>y\<rfloor>; d = y - of_int f
      in if d < 1 / 2 then f else if 1 / 2 < d then f + 1 else if even f then f else f + 1)"

definition round2 :: "rat \<Rightarrow> rat" where
  "round2 x = of_int (round_half_even (x * 100)) / 100"

text \<open>\<^verbatim>\<open>asyncio.gather(a, b)\<close> on two finished results: both values, or the first exception.\<close>

definition gather :: "error + 'a \<Rightarrow> error + 'b \<Rightarrow> error + ('a \<times> 'b)" where
  "gather ra rb =
     (case ra of
        Inl e \<Rightarrow> Inl e
      | Inr a \<Rightarrow> (case rb of Inl e \<Rightarrow> Inl e | Inr b \<Rightarrow> Inr (a, b)))"

subsection \<open>The orchestrator (orchestrator.py)\<close>

text \<open>
  What the orchestrator takes from outside: the provider, the six response models with
  their decoders, Pydantic's \<^verbatim>\<open>model_dump_json\<close> on the models that are put into prompts,
  Python's text for a dict of floats and for a list of strings, and the clock.
\<close>

record env =
  provider :: provider
  cv_model :: "CVAnalysis response_model"
  jd_model :: "JDAnalysis response_model"
  gap_model :: "GapAnalysis response_model"
  question_list_model :: "Question list response_model"
  score_model :: "AnswerScore response_model"
  recommendation_model :: "Recommendation response_model"
  dump_cv :: "CVAnalysis \<Rightarrow> string"
  dump_jd :: "JDAnalysis \<Rightarrow> string"
  dump_gap :: "GapAnalysis \<Rightarrow> string"
  dump_score :: "AnswerScore \<Rightarrow> string"
  str_rubric :: "(string \<times> rat) list \<Rightarrow> string"
  str_list :: "string list \<Rightarrow> string"
  now :: string

text \<open>
  The process state: \<^verbatim>\<open>SessionManager._sessions\<close> and the global \<^verbatim>\<open>llm_gateway\<close>. The
  sessions in the dict are the objects the orchestrator mutates, so an assignment to a
  field of a session is an update of the dict's entry.
\<close>

record world =
  sessions :: "string \<rightharpoonup> InterviewSession"
  gateway :: gateway

definition initial_world :: "gateway \<Rightarrow> world" where
  "initial_world g = \<lparr>sessions = Map.empty, gateway = g\<rparr>"

definition store :: "string \<Rightarrow> InterviewSession \<Rightarrow> gateway \<Rightarrow> world \<Rightarrow> world" where
  "store sid s g w = w\<lparr>sessions := (sessions w)(sid \<mapsto> s), gateway := g\<rparr>"

text \<open>\<^verbatim>\<open>SessionManager.create_session\<close>; the session's uuid is the dict key.\<close>

definition create_session :: "string \<Rightarrow> string \<Rightarrow> world \<Rightarrow> InterviewSession \<times> world" where
  "create_session uuid t w =
     (new_session uuid t, w\<lparr>sessions := (sessions w)(uuid \<mapsto> new_session uuid t)\<rparr>)"

definition gap_prompt :: string where
  "gap_prompt = ''Compare the candidate'' @ squote @ ''s CV against the Job Description.'' @ nl
     @ ''Identify matches, gaps, and areas to probe. Be critical but fair.'' @ nl"

definition q_prompt :: string where
  "q_prompt = ''Generate 6-8 targeted interview questions based on the gap analysis.'' @ nl
     @ ''Strategy:'' @ nl
     @ ''1. Warm up (Introduction)'' @ nl
     @ ''2. Verify strengths (Matched skills)'' @ nl
     @ ''3. Probe weaknesses (Missing skills/Gaps)'' @ nl
     @ ''4. Closing (Opportunity for candidate to ask questions)'' @ nl @ nl
     @ ''Ensure questions are conversational and clearly linked to a gap or competency.''"

definition score_prompt :: string where
  "score_prompt = ''Score the candidate'' @ squote @ ''s answer based on the rubric.'' @ nl
     @ ''You MUST provide a direct quote as evidence for every score.'' @ nl
     @ ''Think step-by-step in the '' @ squote @ ''chain_of_thought'' @ squote @ '' field.'' @ nl
     @ ''Rubric Dimensions: Relevance, Depth, Competency, Communication.'' @ nl"

definition score_user_content :: "Question \<Rightarrow> string \<Rightarrow> string" where
  "score_user_content current_q transcript =
     nl @ ''Question: '' @ question current_q @ nl
     @ ''Target Area: '' @ target_area current_q @ nl
     @ ''Rubric Focus: '' @ rubric_focus current_q @ nl @ nl
     @ ''Candidate Answer: '' @ dquote @ transcript @ dquote @ nl"

text \<open>\<^verbatim>\<open>current_q.follow_up_hint or 'Ask for a specific example.'\<close>: None and the empty string
  both give the default.\<close>

definition follow_up_prompt :: "Question \<Rightarrow> string" where
  "follow_up_prompt current_q =
     ''The candidate gave a weak answer to: '' @ squote @ question current_q @ squote
     @ ''. Ask a polite but probing follow-up question. Hint: ''
     @ (case follow_up_hint current_q of
          None \<Rightarrow> ''Ask for a specific example.''
        | Some h \<Rightarrow> if h = [] then ''Ask for a specific example.'' else h)"

definition rec_prompt :: string where
  "rec_prompt = ''Review the interview scores and generate a hiring recommendation.''"

text \<open>The local coroutines \<^verbatim>\<open>parse_cv\<close> and \<^verbatim>\<open>parse_jd\<close> of \<^verbatim>\<open>analyze_candidate\<close>.\<close>

definition parse_cv :: "env \<Rightarrow> string \<Rightarrow> gateway \<Rightarrow> (error + CVAnalysis) \<times> gateway" where
  "parse_cv E cv g =
     generate_structured (provider E) ''Extract structured data from this CV:'' cv (cv_model E) g"

definition parse_jd :: "env \<Rightarrow> string \<Rightarrow> gateway \<Rightarrow> (error + JDAnalysis) \<times> gateway" where
  "parse_jd E jd g =
     generate_structured (provider E)
       ''Extract structured requirements from this Job Description:'' jd (jd_model E) g"

type_synonym analysis =
  "CVAnalysis option \<times> JDAnalysis option \<times> GapAnalysis option \<times> Question list"

text \<open>
  \<^verbatim>\<open>analyze_candidate\<close>. The two parsing coroutines that \<^verbatim>\<open>asyncio.gather\<close> runs
  concurrently are run one after the other here, the CV first; \<^verbatim>\<open>gather\<close> does not cancel
  the second when the first fails. The status is set to \<open>Setup\<close> on entry and to \<open>Ready\<close>
  after the questions are stored; no handler assigns any other status.
\<close>

definition analyze_candidate ::
  "env \<Rightarrow> string \<Rightarrow> string \<Rightarrow> string \<Rightarrow> world \<Rightarrow> (error + analysis) \<times> world" where
  "analyze_candidate E sid cv jd w =
     (case sessions w sid of
        None \<Rightarrow> (Inl (ValueError ''Session not found''), w)
      | Some session \<Rightarrow>
          (let s1 = session\<lparr>cv_text := cv, jd_text := jd, status := Setup\<rparr>;
               (r_cv, g1) = parse_cv E cv (gateway w);
               (r_jd, g2) = parse_jd E jd g1
           in case gather r_cv r_jd of
                Inl e \<Rightarrow>
                  (Inl (RuntimeError (''Failed to analyze documents: '' @ str_of e)),
                   store sid s1 g2 w)
              | Inr (cv_data, jd_data) \<Rightarrow>
                  (let s2 = s1\<lparr>cv_analysis := Some cv_data, jd_analysis := Some jd_data\<rparr>;
                       user_content = ''CV: '' @ dump_cv E cv_data @ nl
                                      @ ''JD: '' @ dump_jd E jd_data
                   in case generate_structured (provider E) gap_prompt user_content
                             (gap_model E) g2 of
                        (Inl e, g3) \<Rightarrow>
                          (Inl (RuntimeError (''Failed to analyze gaps: '' @ str_of e)),
                           store sid s2 g3 w)
                      | (Inr gap_data, g3) \<Rightarrow>
                          (let s3 = s2\<lparr>gap_analysis := Some gap_data\<rparr>;
                               q_user_content = ''Gap Analysis: '' @ dump_gap E gap_data
                           in case generate_structured (provider E) q_prompt q_user_content
                                     (question_list_model E) g3 of
                                (Inl e, g4) \<Rightarrow>
                                  (Inl (RuntimeError
                                          (''Failed to generate questions: '' @ str_of e)),
                                   store sid s3 g4 w)
                              | (Inr q_list, g4) \<Rightarrow>
                                  (let s4 = s3\<lparr>questions := q_list, status := Ready\<rparr>
                                   in (Inr (cv_analysis s4, jd_analysis s4, gap_analysis s4,
                                            questions s4),
                                       store sid s4 g4 w))))))"

definition get_next_question :: "string \<Rightarrow> world \<Rightarrow> (error + string option) \<times> world" where
  "get_next_question sid w =
     (case sessions w sid of
        None \<Rightarrow> (Inl (ValueError ''Session not found''), w)
      | Some session \<Rightarrow>
          if current_question_index session \<ge> int (length (questions session))
          then (Inr None, store sid (session\<lparr>status := Completed\<rparr>) (gateway w) w)
          else (case list_index (questions session) (current_question_index session) of
                  Inl e \<Rightarrow> (Inl e, w)
                | Inr q \<Rightarrow> (Inr (Some (question q)), w)))"

text \<open>
  The \<^verbatim>\<open>try\<close> block of \<^verbatim>\<open>process_answer\<close>, with its handler
  \<^verbatim>\<open>except Exception: ... pass\<close>. The result is \<open>Some\<close> follow-up text where the block
  returns, and \<open>None\<close> where control leaves the block at its end or through the handler;
  the session and the gateway are as the block left them. The transcript is sent to
  scoring whatever it is: there is no test for an empty text or for the marker that
  \<^verbatim>\<open>transcribe_audio\<close> returns on silence.
\<close>

definition try_score_answer ::
  "env \<Rightarrow> Question \<Rightarrow> string \<Rightarrow> InterviewSession \<Rightarrow> gateway
     \<Rightarrow> string option \<times> InterviewSession \<times> gateway" where
  "try_score_answer E current_q transcript session g =
     (case generate_structured (provider E) score_prompt
             (score_user_content current_q transcript) (score_model E) g of
        (Inl e, g1) \<Rightarrow> (None, session, g1)
      | (Inr raw_score, g1) \<Rightarrow>
          (let score_data = raw_score\<lparr>question_id := qid current_q,
                                       question_text := question current_q,
                                       answer_text := transcript\<rparr>;
               s1 = session\<lparr>scores := scores session @ [score_data]\<rparr>
           in if average_score score_data < 3 \<and> needs_follow_up score_data
                 \<and> qid current_q \<notin> set (followed_up_questions s1)
              then (let s2 = s1\<lparr>followed_up_questions :=
                                   followed_up_questions s1 @ [qid current_q]\<rparr>
                    in case generate_text (provider E) ''You are an interviewer.''
                              (follow_up_prompt current_q) (7 / 10) g1 of
                         (Inl e, g2) \<Rightarrow> (None, s2, g2)
                       | (Inr follow_up_q, g2) \<Rightarrow> (Some follow_up_q, s2, g2))
              else (None, s1, g1)))"

text \<open>
  The end of \<^verbatim>\<open>process_answer\<close>, from the comment \<^verbatim>\<open># 3. Move to Next Question\<close> on:
  the cursor moves by one, then \<^verbatim>\<open>get_next_question\<close> reads the session again.
  \<^verbatim>\<open>if next_q_text:\<close> is false for None and for the empty string.
\<close>

definition move_to_next_question ::
  "string \<Rightarrow> InterviewSession \<Rightarrow> gateway \<Rightarrow> world \<Rightarrow> (error + string \<times> bool) \<times> world" where
  "move_to_next_question sid session g w =
     (let s2 = session\<lparr>current_question_index := current_question_index session + 1\<rparr>
      in case get_next_question sid (store sid s2 g w) of
           (Inl e, w') \<Rightarrow> (Inl e, w')
         | (Inr next_q_text, w') \<Rightarrow>
             (if next_q_text \<noteq> None \<and> next_q_text \<noteq> Some []
              then (Inr (the next_q_text, False), w')
              else (Inr (''Thank you for your time. The interview is now complete.'', True),
                    w')))"

text \<open>
  \<^verbatim>\<open>process_answer\<close>. A missing or completed session answers with the closing line. The
  read of the current question stands before the \<^verbatim>\<open>try\<close>, so its IndexError is raised to
  the caller. The average confidence of the eye metrics is only logged.
\<close>

definition process_answer ::
  "env \<Rightarrow> string \<Rightarrow> string \<Rightarrow> EyeContactMetric list \<Rightarrow> world
     \<Rightarrow> (error + string \<times> bool) \<times> world" where
  "process_answer E sid transcript eye_metrics w =
     (case sessions w sid of
        None \<Rightarrow> (Inr (''Interview is complete. Thank you.'', True), w)
      | Some session \<Rightarrow>
          if status session = Completed
          then (Inr (''Interview is complete. Thank you.'', True), w)
          else
            (let s0 = session\<lparr>eye_contact_logs := eye_contact_logs session @ eye_metrics\<rparr>
             in case list_index (questions s0) (current_question_index s0) of
                  Inl e \<Rightarrow> (Inl e, store sid s0 (gateway w) w)
                | Inr current_q \<Rightarrow>
                    (case try_score_answer E current_q transcript s0 (gateway w) of
                       (Some follow_up_q, s1, g1) \<Rightarrow>
                         (Inr (follow_up_q, False), store sid s1 g1 w)
                     | (None, s1, g1) \<Rightarrow> move_to_next_question sid s1 g1 w)))"

text \<open>\<^verbatim>\<open>getattr(s.scores, dim)\<close>.\<close>

definition getattr_scores :: "RubricScores \<Rightarrow> string \<Rightarrow> error + ScoreDetail" where
  "getattr_scores r dim_name =
     (if dim_name = ''relevance'' then Inr (relevance r)
      else if dim_name = ''depth'' then Inr (depth r)
      else if dim_name = ''competency'' then Inr (competency r)
      else if dim_name = ''communication'' then Inr (communication r)
      else Inl (AttributeError (squote @ ''RubricScores'' @ squote
                                @ '' object has no attribute '' @ squote @ dim_name @ squote)))"

text \<open>\<^verbatim>\<open>sum(getattr(s.scores, dim).score for s in scores)\<close>, from the start value on.\<close>

fun sum_dim :: "string \<Rightarrow> AnswerScore list \<Rightarrow> int \<Rightarrow> error + int" where
  "sum_dim dim_name [] tot = Inr tot"
| "sum_dim dim_name (s # ss) tot =
     (case getattr_scores (answer_scores s) dim_name of
        Inl e \<Rightarrow> Inl e
      | Inr d \<Rightarrow> sum_dim dim_name ss (tot + score d))"

text \<open>The loop \<^verbatim>\<open>for dim in [...]\<close> that fills \<^verbatim>\<open>rubric_avg\<close>.\<close>

fun rubric_loop ::
  "string list \<Rightarrow> AnswerScore list \<Rightarrow> (string \<times> rat) list \<Rightarrow> error + (string \<times> rat) list" where
  "rubric_loop [] ss rubric_avg = Inr rubric_avg"
| "rubric_loop (dim_name # dim_names) ss rubric_avg =
     (case sum_dim dim_name ss 0 of
        Inl e \<Rightarrow> Inl e
      | Inr tot \<Rightarrow>
          (case truediv (of_int tot) (of_nat (length ss)) of
             Inl e \<Rightarrow> Inl e
           | Inr mean \<Rightarrow> rubric_loop dim_names ss (AList.update dim_name (round2 mean) rubric_avg)))"

definition calculate_aggregates :: "AnswerScore list \<Rightarrow> error + (string \<times> rat) list" where
  "calculate_aggregates ss =
     (let rubric_avg = [(''relevance'', 0), (''depth'', 0), (''competency'', 0),
                        (''communication'', 0), (''overall'', 0)]
      in if ss \<noteq> []
         then (case rubric_loop [''relevance'', ''depth'', ''competency'', ''communication'']
                      ss rubric_avg of
                 Inl e \<Rightarrow> Inl e
               | Inr rubric_avg1 \<Rightarrow>
                   (case truediv (sum_list (map average_score ss)) (of_nat (length ss)) of
                      Inl e \<Rightarrow> Inl e
                    | Inr mean \<Rightarrow> Inr (AList.update ''overall'' (round2 mean) rubric_avg1)))
         else Inr rubric_avg)"

text \<open>The f-string \<^verbatim>\<open>rec_context\<close>; \<^verbatim>\<open>{session.cv_analysis.name}\<close> prints None as its text.\<close>

definition rec_context ::
  "env \<Rightarrow> CVAnalysis \<Rightarrow> JDAnalysis \<Rightarrow> (string \<times> rat) list \<Rightarrow> AnswerScore list \<Rightarrow> string" where
  "rec_context E cv_data jd_data rubric_avg ss =
     nl @ ''Candidate: '' @ (case name cv_data of None \<Rightarrow> ''None'' | Some n \<Rightarrow> n) @ nl
     @ ''Role: '' @ title jd_data @ nl
     @ ''Scores: '' @ str_rubric E rubric_avg @ nl
     @ ''Detailed Scores: '' @ str_list E (map (dump_score E) ss) @ nl"

text \<open>
  \<^verbatim>\<open>generate_final_report\<close>. The context string reads \<^verbatim>\<open>session.cv_analysis.name\<close> and
  \<^verbatim>\<open>session.jd_analysis.title\<close> before the gateway is called; \<^verbatim>\<open>FinalReport(...)\<close>
  validates that candidate, job and gap analysis are present. An exception of the gateway
  is not handled here.
\<close>

definition generate_final_report :: "env \<Rightarrow> string \<Rightarrow> world \<Rightarrow> (error + FinalReport) \<times> world" where
  "generate_final_report E sid w =
     (case sessions w sid of
        None \<Rightarrow> (Inl (ValueError ''Session not found''), w)
      | Some session \<Rightarrow>
          (case calculate_aggregates (scores session) of
             Inl e \<Rightarrow> (Inl e, w)
           | Inr rubric_avg \<Rightarrow>
               (case cv_analysis session of
                  None \<Rightarrow> (Inl (AttributeError (squote @ ''NoneType'' @ squote
                              @ '' object has no attribute '' @ squote @ ''name'' @ squote)), w)
                | Some cv_data \<Rightarrow>
                    (case jd_analysis session of
                       None \<Rightarrow> (Inl (AttributeError (squote @ ''NoneType'' @ squote
                              @ '' object has no attribute '' @ squote @ ''title'' @ squote)), w)
                     | Some jd_data \<Rightarrow>
                         (case generate_structured (provider E) rec_prompt
                                 (rec_context E cv_data jd_data rubric_avg (scores session))
                                 (recommendation_model E) (gateway w) of
                            (Inl e, g1) \<Rightarrow> (Inl e, w\<lparr>gateway := g1\<rparr>)
                          | (Inr rec, g1) \<Rightarrow>
                              (case gap_analysis session of
                                 None \<Rightarrow>
                                   (Inl (ValidationError ''1 validation error for FinalReport''),
                                    w\<lparr>gateway := g1\<rparr>)
                               | Some gap_data \<Rightarrow>
                                   (Inr \<lparr>report_session_id = session_id session,
                                         generated_at = now E,
                                         candidate = cv_data,
                                         job = jd_data,
                                         report_gap_analysis = gap_data,
                                         interview_duration = Some ''N/A'',
                                         total_questions = length (questions session),
                                         questions_answered = length (scores session),
                                         rubric_scores = rubric_avg,
                                         per_question_scores = scores session,
                                         report_recommendation = rec,
                                         report_transcript = conversation_history session,
                                         response_latencies = timings session,
                                         model_info = [(''provider'', ''Groq''),
                                           (''model'', primary_model g1)]\<rparr>,
                                    w\<lparr>gateway := g1\<rparr>)))))))"

subsection \<open>Runs of the system\<close>

text \<open>
  One step is one call of an operation of \<^verbatim>\<open>SessionManager\<close> or of the orchestrator, with
  any arguments and any behaviour of the provider and the decoders. A new session's uuid
  is taken to be fresh. With the flag \<open>False\<close>, \<^verbatim>\<open>analyze_candidate\<close> is applied only to
  a session that is still idle, as the endpoint \<^verbatim>\<open>/setup\<close> does, which analyses each
  session once, right after creating it; with \<open>True\<close> it is applied to any session.
  Sessions loaded from files at start-up are not part of a run.
\<close>

inductive step :: "bool \<Rightarrow> world \<Rightarrow> world \<Rightarrow> bool" where
  create: "sid \<notin> dom (sessions w) \<Longrightarrow> step b w (snd (create_session sid t w))"
| analyze: "b \<or> (\<forall>s. sessions w sid = Some s \<longrightarrow> status s = Idle)
            \<Longrightarrow> step b w (snd (analyze_candidate E sid cv jd w))"
| next_question: "step b w (snd (get_next_question sid w))"
| answer: "step b w (snd (process_answer E sid transcript eye_metrics w))"
| report: "step b w (snd (generate_final_report E sid w))"

inductive reachable :: "bool \<Rightarrow> world \<Rightarrow> bool" where
  start: "new_gateway api_keys = Inr g \<Longrightarrow> reachable b (initial_world g)"
| later: "reachable b w \<Longrightarrow> step b w w' \<Longrightarrow> reachable b w'"

subsection \<open>Notions the properties are stated with\<close>

definition closing_line :: string where
  "closing_line = ''Thank you for your time. The interview is now complete.''"

text \<open>
  What a turn that moves on says, read from the session before the move: the text of the
  question after the current one, or the closing line when there is none or its text is
  empty; the flag tells the closing line.
\<close>

definition next_utterance :: "InterviewSession \<Rightarrow> string \<times> bool" where
  "next_utterance session =
     (let i = current_question_index session + 1
      in if i < int (length (questions session))
         then (case list_index (questions session) i of
                 Inr q \<Rightarrow> if question q \<noteq> [] then (question q, False) else (closing_line, True)
               | Inl e \<Rightarrow> (closing_line, True))
         else (closing_line, True))"

text \<open>The mean of the four dimension scores of an answer, rounded to two decimals.\<close>

definition dimension_mean :: "AnswerScore \<Rightarrow> rat" where
  "dimension_mean a =
     round2 (of_int (score (relevance (answer_scores a)) + score (depth (answer_scores a))
                     + score (competency (answer_scores a))
                     + score (communication (answer_scores a))) / 4)"



text \<open>The order idle, setup, ready, interviewing, completed.\<close>

fun status_rank :: "status \<Rightarrow> nat" where
  "status_rank Idle = 0"
| "status_rank Setup = 1"
| "status_rank Ready = 2"
| "status_rank Interviewing = 3"
| "status_rank Completed = 4"
| "status_rank Error = 5"

text \<open>The score as \<^verbatim>\<open>process_answer\<close> stores it: three fields are overwritten.\<close>

definition hydrate :: "Question \<Rightarrow> string \<Rightarrow> AnswerScore \<Rightarrow> AnswerScore" where
  "hydrate current_q transcript raw_score =
     raw_score\<lparr>question_id := qid current_q, question_text := question current_q,
                answer_text := transcript\<rparr>"




text \<open>
  What one call may have done to a session. A turn (\<^verbatim>\<open>get_next_question\<close>,
  \<^verbatim>\<open>process_answer\<close>) keeps the questions, keeps the status or sets it to \<open>Completed\<close>,
  and keeps the followed-up list or appends the id of one of the questions, an id that
  was not in it. An analysis keeps the followed-up list and leaves the status \<open>Setup\<close>
  or \<open>Ready\<close>.
\<close>

definition turn_effect :: "InterviewSession \<Rightarrow> InterviewSession \<Rightarrow> bool" where
  "turn_effect s s' \<longleftrightarrow>
     questions s' = questions s
     \<and> (status s' = status s \<or> status s' = Completed)
     \<and> (followed_up_questions s' = followed_up_questions s
        \<or> (\<exists>q \<in> set (questions s). qid q \<notin> set (followed_up_questions s)
              \<and> followed_up_questions s' = followed_up_questions s @ [qid q]))"

definition analysis_effect :: "InterviewSession \<Rightarrow> InterviewSession \<Rightarrow> bool" where
  "analysis_effect s s' \<longleftrightarrow>
     followed_up_questions s' = followed_up_questions s
     \<and> (status s' = Setup \<or> status s' = Ready)"

subsection \<open>Example data\<close>

text \<open>The questions, scores and session of \<^verbatim>\<open>tests/test_async_flow.py\<close>.\<close>

definition test_question :: "int \<Rightarrow> string \<Rightarrow> string \<Rightarrow> Question" where
  "test_question i q a = \<lparr>qid = i, question = q, target_area = a, category = Technical,
     rubric_focus = ''F'', follow_up_hint = Some ''H''\<rparr>"

definition test_detail :: "int \<Rightarrow> ScoreDetail" where
  "test_detail n = \<lparr>score = n, evidence = ''E'', reasoning = ''R''\<rparr>"

definition test_score :: "rat \<Rightarrow> bool \<Rightarrow> AnswerScore" where
  "test_score avg fu = \<lparr>question_id = 1, question_text = ''Q1'', answer_text = ''Ans'',
     chain_of_thought = [],
     answer_scores = \<lparr>relevance = test_detail 5, depth = test_detail 4,
                       competency = test_detail 5, communication = test_detail 4\<rparr>,
     average_score = avg, needs_follow_up = fu, follow_up_reason = None\<rparr>"

definition test_cv :: CVAnalysis where
  "test_cv = \<lparr>name = Some ''Test Candidate'', skills = [''Python''], experience_years = 5,
     experiences = [], education = [], projects = [], tools = [], cv_summary = []\<rparr>"

definition test_jd :: JDAnalysis where
  "test_jd = \<lparr>title = ''Software Engineer'', jd_company = None,
     required_skills = [''Python'', ''FastAPI''], preferred_skills = [],
     experience_required = [], education_required = [], key_responsibilities = [],
     soft_skills = [], jd_summary = []\<rparr>"

definition test_gap :: GapAnalysis where
  "test_gap = \<lparr>match_score = 90, matched_skills = [''Python''], missing_skills = [],
     experience_gap = ''None'', education_match = True, gap_strengths = [], concerns = [],
     probe_areas = []\<rparr>"

definition test_recommendation :: Recommendation where
  "test_recommendation = \<lparr>recommendation = CONSIDER, rec_summary = ''S'', strengths = [],
     areas_for_development = [], hiring_confidence = 50\<rparr>"

definition always :: "string \<Rightarrow> 'a \<Rightarrow> 'a response_model" where
  "always n v = \<lparr>model_name = n, json_schema = ''{}'', decode = (\<lambda>raw. Some v)\<rparr>"

text \<open>An environment whose decoders accept every text: the provider, the score and the
  question list that the model returns are the arguments.\<close>

definition test_env :: "provider \<Rightarrow> AnswerScore \<Rightarrow> Question list \<Rightarrow> env" where
  "test_env P sd qs = \<lparr>provider = P,
     cv_model = always ''CVAnalysis'' test_cv, jd_model = always ''JDAnalysis'' test_jd,
     gap_model = always ''GapAnalysis'' test_gap,
     question_list_model = always ''QuestionList'' qs,
     score_model = always ''AnswerScore'' sd,
     recommendation_model = always ''Recommendation'' test_recommendation,
     dump_cv = (\<lambda>x. ''{}''), dump_jd = (\<lambda>x. ''{}''), dump_gap = (\<lambda>x. ''{}''),
     dump_score = (\<lambda>x. ''{}''), str_rubric = (\<lambda>x. ''{}''), str_list = (\<lambda>x. ''[]''),
     now = ''2026-01-01T00:00:00''\<rparr>"

definition answering :: "string \<Rightarrow> provider" where
  "answering content h client model messages temperature = Inr content"

definition unavailable :: provider where
  "unavailable h client model messages temperature = Inl (APIError ''Connection error.'')"

text \<open>A provider that answers the first request and fails from then on.\<close>

definition answering_once :: "string \<Rightarrow> provider" where
  "answering_once content h client model messages temperature =
     (if h = [] then Inr content else Inl (APIError ''Connection error.''))"

definition test_session :: InterviewSession where
  "test_session = (new_session ''s1'' ''t0'')\<lparr>status := Ready,
     questions := [test_question 1 ''Q1'' ''A'', test_question 2 ''Q2'' ''B'']\<rparr>"

definition test_world :: "InterviewSession \<Rightarrow> world" where
  "test_world s = \<lparr>sessions = [''s1'' \<mapsto> s], gateway = one_key_gateway\<rparr>"


text \<open>
  Runs from an empty process: a session is created and analysed into two questions; a weak
  first answer is followed up; then the analysis is run again and returns no question.
\<close>

definition low_env :: "Question list \<Rightarrow> env" where
  "low_env qs = test_env (answering ''{}'') (test_score (9 / 5) True) qs"

definition good_env :: "Question list \<Rightarrow> env" where
  "good_env qs = test_env (answering ''{}'') (test_score (9 / 2) False) qs"

definition run_created :: world where
  "run_created = snd (create_session ''s1'' ''t0'' (initial_world one_key_gateway))"

definition run_analysed :: world where
  "run_analysed = snd (analyze_candidate
     (low_env [test_question 1 ''Q1'' ''A'', test_question 2 ''Q2'' ''B''])
     ''s1'' ''CV Text'' ''JD Text'' run_created)"

definition run_followed_up :: world where
  "run_followed_up = snd (process_answer
     (low_env [test_question 1 ''Q1'' ''A'', test_question 2 ''Q2'' ''B''])
     ''s1'' ''I am not sure'' [] run_analysed)"

definition run_reanalysed :: world where
  "run_reanalysed = snd (analyze_candidate (low_env []) ''s1'' ''CV Text'' ''JD Text''
     run_followed_up)"

text \<open>A run with one question, answered well: the interview is complete after one turn.\<close>

definition run_interview :: world where
  "run_interview = snd (analyze_candidate (good_env [test_question 1 ''Q1'' ''A''])
     ''s1'' ''CV Text'' ''JD Text'' run_created)"

definition run_finished :: world where
  "run_finished = snd (process_answer (good_env [test_question 1 ''Q1'' ''A''])
     ''s1'' ''My Answer'' [] run_interview)"
section \<open>Properties of the gateway\<close>



lemma retrying_success:
  "call_api_raw_attempt P ms m t g = (Inr v, g1) \<Longrightarrow> retrying P ms m t n g = (Inr v, g1)"
  by (subst retrying.simps) simp









lemmas gateway_eval =
  generate_text_def call_api_raw_def retrying.simps call_api_raw_attempt_def get_client_def
  record_event_def stop_after_attempt_def wait_exponential_def



text \<open>
  Claim C7, evaluated with two credentials. The attempt reads client 0 and is answered with
  a rate-limit error: the normal advance and the extra advance together bring the pointer
  back to 0, and the next acquisition returns the throttled client 0 again.
\<close>

theorem rate_limit_rotation_two_keys:
  "history (snd (call_api_raw_attempt rate_limited [(''user'', ''hi'')] ''llama-3.3-70b-versatile''
                   (7 / 10) two_key_gateway))
     = [Attempt ''llama-3.3-70b-versatile'' 0 (Inl (APIError ''Error code: 429 - rate limit reached''))]
   \<and> fst (get_client (snd (call_api_raw_attempt rate_limited [(''user'', ''hi'')]
                   ''llama-3.3-70b-versatile'' (7 / 10) two_key_gateway))) = Inr 0"
  by (simp add: gateway_eval rate_limited_def two_key_gateway_def)

text \<open>
  In general the acquisition after a rate-limited attempt on client \<open>k\<close> returns client
  \<open>(k + 2) mod n\<close>, which differs from \<open>k\<close> when there are at least three clients.
\<close>

lemma rate_limited_attempt_next_client:
  assumes "current_client_idx g < length (clients g)"
    and "P (history g) (current_client_idx g) model messages t = Inl e"
    and "str_contains ''429'' (str_of e)"
  shows "fst (get_client (snd (call_api_raw_attempt P messages model t g)))
           = Inr ((current_client_idx g + 2) mod length (clients g))"
proof -
  from assms(1) have "0 < length (clients g)" by (cases "clients g") simp_all
  with assms show ?thesis
    by (simp add: call_api_raw_attempt_def get_client_def record_event_def Let_def mod_simps)
qed

lemma rate_limited_attempt_skips:
  assumes "current_client_idx g < length (clients g)" and "3 \<le> length (clients g)"
  shows "(current_client_idx g + 2) mod length (clients g) \<noteq> current_client_idx g"
proof
  assume eq: "(current_client_idx g + 2) mod length (clients g) = current_client_idx g"
  let ?n = "length (clients g)" and ?k = "current_client_idx g"
  show False
  proof (cases "?k + 2 < ?n")
    case True
    with eq show False by simp
  next
    case False
    then have "(?k + 2) mod ?n = (?k + 2 - ?n) mod ?n"
      by (simp add: le_mod_geq)
    also from assms have "\<dots> = ?k + 2 - ?n"
      by simp
    finally show False using eq assms by simp
  qed
qed

subsection \<open>Structured calls\<close>


section \<open>Properties of a turn\<close>

lemma list_index_next:
  assumes "list_index xs i = Inr x" and "i + 1 < int (length xs)"
  shows "\<exists>y. list_index xs (i + 1) = Inr y"
  using assms by (auto simp: list_index_def Let_def split: if_splits)

lemma move_to_next_question_result:
  assumes "list_index (questions session) (current_question_index session) = Inr q0"
  shows "move_to_next_question sid session g w
           = (Inr (next_utterance session),
              store sid (session\<lparr>current_question_index := current_question_index session + 1,
                  status := (if int (length (questions session)) \<le> current_question_index session + 1
                             then Completed else status session)\<rparr>) g w)"
proof (cases "int (length (questions session)) \<le> current_question_index session + 1")
  case True
  then show ?thesis
    by (simp add: move_to_next_question_def get_next_question_def store_def closing_line_def
          next_utterance_def)
next
  case False
  then have lt: "current_question_index session + 1 < int (length (questions session))" by simp
  with list_index_next [OF assms] obtain q where
    q: "list_index (questions session) (current_question_index session + 1) = Inr q" by blast
  from lt have "session\<lparr>current_question_index := current_question_index session + 1,
                   status := status session\<rparr>
              = session\<lparr>current_question_index := current_question_index session + 1\<rparr>"
    by simp
  with lt q show ?thesis
    by (simp add: move_to_next_question_def get_next_question_def store_def closing_line_def
          next_utterance_def)
qed

lemma next_utterance_eye [simp]:
  "next_utterance (session\<lparr>eye_contact_logs := x\<rparr>) = next_utterance session"
  by (simp add: next_utterance_def Let_def cong: if_cong)

lemma try_score_answer_failed:
  assumes "generate_structured (provider E) score_prompt (score_user_content current_q transcript)
             (score_model E) g = (Inl e, g1)"
  shows "try_score_answer E current_q transcript session g = (None, session, g1)"
  using assms by (simp add: try_score_answer_def)

lemma process_answer_scored:
  assumes "sessions w sid = Some session" and "status session \<noteq> Completed"
    and "list_index (questions session) (current_question_index session) = Inr current_q"
  shows "process_answer E sid transcript eye_metrics w
           = (case try_score_answer E current_q transcript
                     (session\<lparr>eye_contact_logs := eye_contact_logs session @ eye_metrics\<rparr>)
                     (gateway w) of
                (Some follow_up_q, s1, g1) \<Rightarrow> (Inr (follow_up_q, False), store sid s1 g1 w)
              | (None, s1, g1) \<Rightarrow> move_to_next_question sid s1 g1 w)"
  using assms by (simp add: process_answer_def)

text \<open>
  Claim C8. In a turn that reaches scoring (the session exists, is not completed, and its
  cursor reads a question) and whose scoring call raises, whatever the exception,
  \<^verbatim>\<open>process_answer\<close> does not raise: it returns the next utterance (the next question's
  text, or the closing line at the end of the list), the cursor has moved by one, and
  neither a score nor a follow-up has been recorded.
\<close>

theorem scoring_failure_advances:
  assumes "sessions w sid = Some session" and "status session \<noteq> Completed"
    and "list_index (questions session) (current_question_index session) = Inr current_q"
    and "generate_structured (provider E) score_prompt (score_user_content current_q transcript)
           (score_model E) (gateway w) = (Inl e, g1)"
  shows "fst (process_answer E sid transcript eye_metrics w) = Inr (next_utterance session)
     \<and> (\<exists>s'. sessions (snd (process_answer E sid transcript eye_metrics w)) sid = Some s'
          \<and> current_question_index s' = current_question_index session + 1
          \<and> scores s' = scores session
          \<and> followed_up_questions s' = followed_up_questions session
          \<and> questions s' = questions session)"
proof -
  let ?s0 = "session\<lparr>eye_contact_logs := eye_contact_logs session @ eye_metrics\<rparr>"
  have q0: "list_index (questions ?s0) (current_question_index ?s0) = Inr current_q"
    using assms(3) by simp
  have "process_answer E sid transcript eye_metrics w = move_to_next_question sid ?s0 g1 w"
    using assms by (simp add: process_answer_scored try_score_answer_failed)
  then show ?thesis
    by (simp add: move_to_next_question_result [OF q0] store_def)
qed


lemma generate_text_unavailable:
  "fst (generate_text unavailable sp up t one_key_gateway) = Inl (RuntimeError ''All models failed.'')"
  by (simp add: gateway_eval unavailable_def one_key_gateway_def)

lemma generate_structured_unavailable:
  "fst (generate_structured unavailable sp up rm one_key_gateway)
     = Inl (RuntimeError ''All models failed.'')"
proof -
  obtain r g where rg: "generate_text unavailable
      (sp @ nl @ nl
       @ ''You must return a valid JSON object that strictly adheres to this schema:'' @ nl
       @ json_schema rm @ nl @ nl
       @ ''Return ONLY the JSON object. Do not wrap it in markdown code blocks.'' @ nl)
      up (1 / 5) one_key_gateway = (r, g)"
    by (meson surj_pair)
  with generate_text_unavailable [of _ up "1 / 5"] have "r = Inl (RuntimeError ''All models failed.'')"
    by (metis fst_conv)
  with rg show ?thesis by (simp add: generate_structured_def)
qed

lemma generate_text_answering:
  assumes "current_client_idx g < length (clients g)"
  shows "generate_text (answering c) sp up t g
    = (Inr c, g\<lparr>current_client_idx := (current_client_idx g + 1) mod length (clients g),
                  history := history g @ [Attempt (primary_model g) (current_client_idx g) (Inr c)]\<rparr>)"
proof -
  let ?ms = "[(''system'', sp), (''user'', up)]"
  let ?g' = "g\<lparr>current_client_idx := (current_client_idx g + 1) mod length (clients g),
                  history := history g @ [Attempt (primary_model g) (current_client_idx g) (Inr c)]\<rparr>"
  from assms have "call_api_raw_attempt (answering c) ?ms (primary_model g) t g = (Inr c, ?g')"
    by (simp add: call_api_raw_attempt_def get_client_def record_event_def answering_def)
  then have "call_api_raw (answering c) ?ms (primary_model g) t g = (Inr c, ?g')"
    unfolding call_api_raw_def by (rule retrying_success)
  then show ?thesis by (simp add: generate_text_def)
qed

lemma generate_structured_answering:
  assumes "current_client_idx g < length (clients g)"
  shows "generate_structured (answering c) sp up (always n v) g
    = (Inr v, g\<lparr>current_client_idx := (current_client_idx g + 1) mod length (clients g),
                  history := history g @ [Attempt (primary_model g) (current_client_idx g) (Inr c)]\<rparr>)"
  using assms
  by (simp add: generate_structured_def generate_text_answering always_def)

theorem scoring_failure_advances_witness:
  "fst (process_answer (test_env unavailable (test_score 1 False) []) ''s1'' ''My Answer'' []
          (test_world test_session)) = Inr (''Q2'', False)
   \<and> (\<exists>s'. sessions (snd (process_answer (test_env unavailable (test_score 1 False) [])
                   ''s1'' ''My Answer'' [] (test_world test_session))) ''s1'' = Some s'
          \<and> current_question_index s' = 1 \<and> scores s' = []
          \<and> followed_up_questions s' = [])"
proof -
  let ?E = "test_env unavailable (test_score 1 False) []"
  let ?q = "test_question 1 ''Q1'' ''A''"
  let ?gs = "generate_structured (provider ?E) score_prompt (score_user_content ?q ''My Answer'')
               (score_model ?E) (gateway (test_world test_session))"
  have h1: "sessions (test_world test_session) ''s1'' = Some test_session"
    by (simp add: test_world_def)
  have h2: "status test_session \<noteq> Completed"
    by (simp add: test_session_def new_session_def)
  have h3: "list_index (questions test_session) (current_question_index test_session) = Inr ?q"
    by (simp add: test_session_def new_session_def list_index_def)
  have "fst ?gs = Inl (RuntimeError ''All models failed.'')"
    by (simp add: test_env_def test_world_def generate_structured_unavailable)
  then have h4: "?gs = (Inl (RuntimeError ''All models failed.''), snd ?gs)"
    by (metis prod.collapse)
  have nu: "next_utterance test_session = (''Q2'', False)"
    by (simp add: next_utterance_def test_session_def new_session_def list_index_def
          test_question_def)
  have f: "current_question_index test_session = 0" "scores test_session = []"
    "followed_up_questions test_session = []"
    by (simp_all add: test_session_def new_session_def)
  from scoring_failure_advances [OF h1 h2 h3 h4, of "[]"] nu f show ?thesis
    by auto
qed

subsection \<open>Scored turns\<close>

lemma try_score_answer_scored:
  assumes "generate_structured (provider E) score_prompt (score_user_content current_q transcript)
             (score_model E) g = (Inr raw_score, g1)"
    and "generate_text (provider E) ''You are an interviewer.'' (follow_up_prompt current_q)
             (7 / 10) g1 = (r_fu, g2)"
  shows "try_score_answer E current_q transcript session g =
     (if average_score raw_score < 3 \<and> needs_follow_up raw_score
         \<and> qid current_q \<notin> set (followed_up_questions session)
      then (case r_fu of Inl e \<Rightarrow> None | Inr follow_up_q \<Rightarrow> Some follow_up_q,
            session\<lparr>scores := scores session @ [hydrate current_q transcript raw_score],
                    followed_up_questions := followed_up_questions session @ [qid current_q]\<rparr>,
            g2)
      else (None,
            session\<lparr>scores := scores session @ [hydrate current_q transcript raw_score]\<rparr>,
            g1))"
  using assms
  by (cases r_fu) (simp_all add: try_score_answer_def hydrate_def Let_def)

lemma scored_turn_outcome:
  assumes "sessions w sid = Some session" and "status session \<noteq> Completed"
    and "list_index (questions session) (current_question_index session) = Inr current_q"
    and "generate_structured (provider E) score_prompt (score_user_content current_q transcript)
           (score_model E) (gateway w) = (Inr raw_score, g1)"
    and "generate_text (provider E) ''You are an interviewer.'' (follow_up_prompt current_q)
           (7 / 10) g1 = (r_fu, g2)"
  shows "\<exists>s'. sessions (snd (process_answer E sid transcript eye_metrics w)) sid = Some s'
     \<and> scores s' = scores session @ [hydrate current_q transcript raw_score]
     \<and> (if average_score raw_score < 3 \<and> needs_follow_up raw_score
            \<and> qid current_q \<notin> set (followed_up_questions session)
         then followed_up_questions s' = followed_up_questions session @ [qid current_q]
              \<and> (case r_fu of
                    Inr follow_up_q \<Rightarrow>
                      fst (process_answer E sid transcript eye_metrics w)
                        = Inr (follow_up_q, False)
                      \<and> current_question_index s' = current_question_index session
                  | Inl e \<Rightarrow>
                      fst (process_answer E sid transcript eye_metrics w)
                        = Inr (next_utterance session)
                      \<and> current_question_index s' = current_question_index session + 1)
         else followed_up_questions s' = followed_up_questions session
              \<and> fst (process_answer E sid transcript eye_metrics w)
                   = Inr (next_utterance session)
              \<and> current_question_index s' = current_question_index session + 1)"
proof -
  let ?s0 = "session\<lparr>eye_contact_logs := eye_contact_logs session @ eye_metrics\<rparr>"
  let ?sd = "hydrate current_q transcript raw_score"
  let ?s1 = "session\<lparr>eye_contact_logs := eye_contact_logs session @ eye_metrics,
                      scores := scores session @ [?sd]\<rparr>"
  let ?s2 = "session\<lparr>eye_contact_logs := eye_contact_logs session @ eye_metrics,
                      scores := scores session @ [?sd],
                      followed_up_questions := followed_up_questions session @ [qid current_q]\<rparr>"
  note pa = process_answer_scored [OF assms(1-3), of E transcript eye_metrics]
  note ts = try_score_answer_scored [OF assms(4,5), of ?s0]
  have q1: "list_index (questions ?s1) (current_question_index ?s1) = Inr current_q"
    and q2: "list_index (questions ?s2) (current_question_index ?s2) = Inr current_q"
    using assms(3) by simp_all
  have nu: "next_utterance ?s1 = next_utterance session"
    "next_utterance ?s2 = next_utterance session"
    by (simp_all add: next_utterance_def Let_def cong: if_cong)
  show ?thesis
  proof (cases "average_score raw_score < 3 \<and> needs_follow_up raw_score
            \<and> qid current_q \<notin> set (followed_up_questions session)")
    case False
    then have "process_answer E sid transcript eye_metrics w = move_to_next_question sid ?s1 g1 w"
      using pa ts by auto
    with False nu show ?thesis
      by (simp add: move_to_next_question_result [OF q1] store_def)
  next
    case True
    show ?thesis
    proof (cases r_fu)
      case (Inr follow_up_q)
      with True have "process_answer E sid transcript eye_metrics w
                        = (Inr (follow_up_q, False), store sid ?s2 g2 w)"
        using pa ts by simp
      with True Inr show ?thesis by (simp add: store_def)
    next
      case (Inl e)
      with True have "process_answer E sid transcript eye_metrics w
                        = move_to_next_question sid ?s2 g2 w"
        using pa ts by simp
      with True Inl nu show ?thesis
        by (simp add: move_to_next_question_result [OF q2] store_def)
    qed
  qed
qed

text \<open>
  Claim C1, as amended. In a turn whose answer is scored, the id of the current question is
  added to the followed-up list exactly when the average is below 3, the score asks for a
  follow-up and the id is not yet in the list. A follow-up is returned, with the cursor
  unchanged, exactly when these three hold and the gateway then produces the follow-up
  text; when the three hold and that call raises, the handler passes and the turn moves on
  like a turn without follow-up: the next utterance is returned and the cursor moves by one.
\<close>

theorem follow_up_decision:
  assumes "sessions w sid = Some session" and "status session \<noteq> Completed"
    and "list_index (questions session) (current_question_index session) = Inr current_q"
    and "generate_structured (provider E) score_prompt (score_user_content current_q transcript)
           (score_model E) (gateway w) = (Inr raw_score, g1)"
    and "generate_text (provider E) ''You are an interviewer.'' (follow_up_prompt current_q)
           (7 / 10) g1 = (r_fu, g2)"
  shows "\<exists>s'. sessions (snd (process_answer E sid transcript eye_metrics w)) sid = Some s'
     \<and> (if average_score raw_score < 3 \<and> needs_follow_up raw_score
            \<and> qid current_q \<notin> set (followed_up_questions session)
         then followed_up_questions s' = followed_up_questions session @ [qid current_q]
              \<and> (case r_fu of
                    Inr follow_up_q \<Rightarrow>
                      fst (process_answer E sid transcript eye_metrics w)
                        = Inr (follow_up_q, False)
                      \<and> current_question_index s' = current_question_index session
                  | Inl e \<Rightarrow>
                      fst (process_answer E sid transcript eye_metrics w)
                        = Inr (next_utterance session)
                      \<and> current_question_index s' = current_question_index session + 1)
         else followed_up_questions s' = followed_up_questions session
              \<and> fst (process_answer E sid transcript eye_metrics w)
                   = Inr (next_utterance session)
              \<and> current_question_index s' = current_question_index session + 1)"
  using scored_turn_outcome [OF assms, of eye_metrics] by auto

lemma hydrate_keeps:
  "average_score (hydrate current_q transcript raw_score) = average_score raw_score"
  "answer_scores (hydrate current_q transcript raw_score) = answer_scores raw_score"
  "dimension_mean (hydrate current_q transcript raw_score) = dimension_mean raw_score"
  "answer_text (hydrate current_q transcript raw_score) = transcript"
  by (simp_all add: hydrate_def dimension_mean_def)

lemma scored_turn_appends:
  assumes "sessions w sid = Some session" and "status session \<noteq> Completed"
    and "list_index (questions session) (current_question_index session) = Inr current_q"
    and "generate_structured (provider E) score_prompt (score_user_content current_q transcript)
           (score_model E) (gateway w) = (Inr raw_score, g1)"
  shows "\<exists>s'. sessions (snd (process_answer E sid transcript eye_metrics w)) sid = Some s'
          \<and> scores s' = scores session @ [hydrate current_q transcript raw_score]"
proof -
  obtain r_fu g2 where fu: "generate_text (provider E) ''You are an interviewer.''
      (follow_up_prompt current_q) (7 / 10) g1 = (r_fu, g2)"
    by (meson surj_pair)
  from scored_turn_outcome [OF assms fu, of eye_metrics] show ?thesis by blast
qed

text \<open>
  Claim C3, as amended. The score appended in a scored turn is the decoded output of the
  model with question id, question text and answer text overwritten: its average and its
  dimension scores are the model's, so the average equals the rounded mean of the four
  dimensions exactly when the model's output had it so.
\<close>

theorem stored_score_is_model_output:
  assumes "sessions w sid = Some session" and "status session \<noteq> Completed"
    and "list_index (questions session) (current_question_index session) = Inr current_q"
    and "generate_structured (provider E) score_prompt (score_user_content current_q transcript)
           (score_model E) (gateway w) = (Inr raw_score, g1)"
  shows "\<exists>s'. sessions (snd (process_answer E sid transcript eye_metrics w)) sid = Some s'
     \<and> scores s' = scores session @ [hydrate current_q transcript raw_score]
     \<and> average_score (hydrate current_q transcript raw_score) = average_score raw_score
     \<and> answer_scores (hydrate current_q transcript raw_score) = answer_scores raw_score
     \<and> (average_score (last (scores s')) = dimension_mean (last (scores s'))
          \<longleftrightarrow> average_score raw_score = dimension_mean raw_score)"
  using scored_turn_appends [OF assms, of eye_metrics] by (auto simp: hydrate_keeps)

lemma test_session_facts:
  "sessions (test_world test_session) ''s1'' = Some test_session"
  "status test_session \<noteq> Completed"
  "list_index (questions test_session) (current_question_index test_session)
     = Inr (test_question 1 ''Q1'' ''A'')"
  "current_question_index test_session = 0"
  "scores test_session = []"
  "followed_up_questions test_session = []"
  "next_utterance test_session = (''Q2'', False)"
  "gateway (test_world test_session) = one_key_gateway"
  by (simp_all add: test_world_def test_session_def new_session_def list_index_def
        next_utterance_def test_question_def)

lemma test_env_facts:
  "provider (test_env P sd qs) = P"
  "score_model (test_env P sd qs) = always ''AnswerScore'' sd"
  by (simp_all add: test_env_def)

lemma one_key_answering:
  "generate_structured (answering c) sp up (always n v) one_key_gateway
     = (Inr v, one_key_gateway\<lparr>history :=
          [Attempt ''llama-3.3-70b-versatile'' 0 (Inr c)]\<rparr>)"
  using generate_structured_answering [of one_key_gateway c sp up n v]
  by (simp add: one_key_gateway_def)

lemma dimension_mean_test: "dimension_mean (test_score a b) = 9 / 2"
  by (simp add: dimension_mean_def test_score_def test_detail_def round2_def
        round_half_even_def)

theorem stored_score_is_model_output_witness:
  "dimension_mean (test_score (9 / 2) False) = 9 / 2
   \<and> (\<exists>s'. sessions (snd (process_answer (test_env (answering ''{}'') (test_score (9 / 2) False) [])
                   ''s1'' ''My Answer'' [] (test_world test_session))) ''s1'' = Some s'
          \<and> map average_score (scores s') = [9 / 2]
          \<and> average_score (last (scores s')) = dimension_mean (last (scores s')))"
proof -
  let ?E = "test_env (answering ''{}'') (test_score (9 / 2) False) []"
  have h4: "generate_structured (provider ?E) score_prompt
              (score_user_content (test_question 1 ''Q1'' ''A'') ''My Answer'') (score_model ?E)
              (gateway (test_world test_session))
            = (Inr (test_score (9 / 2) False),
               one_key_gateway\<lparr>history := [Attempt ''llama-3.3-70b-versatile'' 0 (Inr ''{}'')]\<rparr>)"
    by (simp add: test_env_facts test_session_facts one_key_answering)
  have av: "average_score (test_score (9 / 2) False) = 9 / 2"
    by (simp add: test_score_def)
  from stored_score_is_model_output [OF test_session_facts(1-3) h4, of "[]"]
  show ?thesis
    by (auto simp: test_session_facts dimension_mean_test av)
qed

text \<open>
  Claim C3 as stated fails: an output with dimension scores 5, 4, 5, 4 and average 1 is
  valid for the schema and is stored with average 1, while the rounded mean is 4.5.
\<close>

theorem average_score_counterexample:
  "map average_score (scores (the (sessions (snd (process_answer
       (test_env (answering ''{}'') (test_score 1 False) []) ''s1'' ''My Answer'' []
       (test_world test_session))) ''s1''))) = [1]
   \<and> map dimension_mean (scores (the (sessions (snd (process_answer
       (test_env (answering ''{}'') (test_score 1 False) []) ''s1'' ''My Answer'' []
       (test_world test_session))) ''s1''))) = [9 / 2]"
proof -
  let ?E = "test_env (answering ''{}'') (test_score 1 False) []"
  have h4: "generate_structured (provider ?E) score_prompt
              (score_user_content (test_question 1 ''Q1'' ''A'') ''My Answer'') (score_model ?E)
              (gateway (test_world test_session))
            = (Inr (test_score 1 False),
               one_key_gateway\<lparr>history := [Attempt ''llama-3.3-70b-versatile'' 0 (Inr ''{}'')]\<rparr>)"
    by (simp add: test_env_facts test_session_facts one_key_answering)
  have av: "average_score (test_score 1 False) = 1"
    by (simp add: test_score_def)
  from scored_turn_appends [OF test_session_facts(1-3) h4, of "[]"]
  show ?thesis
    by (auto simp: test_session_facts dimension_mean_test av hydrate_keeps)
qed

text \<open>
  Claim C9, evaluated on the marker \<^verbatim>\<open>...\<close> that \<^verbatim>\<open>transcribe_audio\<close> returns on
  silence and on the empty text: both are scored, and the score is appended.
\<close>

theorem silent_turn_is_scored:
  "map answer_text (scores (the (sessions (snd (process_answer
       (test_env (answering ''{}'') (test_score (9 / 2) False) []) ''s1'' ''...'' []
       (test_world test_session))) ''s1''))) = [''...'']
   \<and> map answer_text (scores (the (sessions (snd (process_answer
       (test_env (answering ''{}'') (test_score (9 / 2) False) []) ''s1'' [] []
       (test_world test_session))) ''s1''))) = [[]]"
proof -
  let ?E = "test_env (answering ''{}'') (test_score (9 / 2) False) []"
  have h4: "generate_structured (provider ?E) score_prompt
              (score_user_content (test_question 1 ''Q1'' ''A'') t) (score_model ?E)
              (gateway (test_world test_session))
            = (Inr (test_score (9 / 2) False),
               one_key_gateway\<lparr>history := [Attempt ''llama-3.3-70b-versatile'' 0 (Inr ''{}'')]\<rparr>)"
    for t
    by (simp add: test_env_facts test_session_facts one_key_answering)
  from scored_turn_appends [OF test_session_facts(1-3) h4, of "''...''" "[]"]
    scored_turn_appends [OF test_session_facts(1-3) h4, of "[]" "[]"]
  show ?thesis
    by (auto simp: test_session_facts hydrate_keeps)
qed

lemma one_key_answering_text:
  "generate_text (answering c) sp up t
      (one_key_gateway\<lparr>history := h\<rparr>)
     = (Inr c, one_key_gateway\<lparr>history :=
          h @ [Attempt ''llama-3.3-70b-versatile'' 0 (Inr c)]\<rparr>)"
  using generate_text_answering [of "one_key_gateway\<lparr>history := h\<rparr>" c sp up t]
  by (simp add: one_key_gateway_def)

lemma one_key_answering_once:
  "generate_structured (answering_once c) sp up (always n v) one_key_gateway
     = (Inr v, one_key_gateway\<lparr>history :=
          [Attempt ''llama-3.3-70b-versatile'' 0 (Inr c)]\<rparr>)"
proof -
  have "call_api_raw_attempt (answering_once c) ms ''llama-3.3-70b-versatile'' t one_key_gateway
          = (Inr c, one_key_gateway\<lparr>history := [Attempt ''llama-3.3-70b-versatile'' 0 (Inr c)]\<rparr>)"
    for ms t
    by (simp add: call_api_raw_attempt_def get_client_def record_event_def answering_once_def
          one_key_gateway_def)
  then have "call_api_raw (answering_once c) ms ''llama-3.3-70b-versatile'' t one_key_gateway
          = (Inr c, one_key_gateway\<lparr>history := [Attempt ''llama-3.3-70b-versatile'' 0 (Inr c)]\<rparr>)"
    for ms t
    unfolding call_api_raw_def by (rule retrying_success)
  then have "generate_text (answering_once c) sp' up (1 / 5) one_key_gateway
          = (Inr c, one_key_gateway\<lparr>history := [Attempt ''llama-3.3-70b-versatile'' 0 (Inr c)]\<rparr>)"
    for sp'
    by (simp add: generate_text_def one_key_gateway_def)
  then show ?thesis
    by (simp add: generate_structured_def always_def)
qed

lemma answering_once_later:
  "fst (generate_text (answering_once c) sp up t
          (one_key_gateway\<lparr>history := [Attempt m 0 r]\<rparr>))
     = Inl (RuntimeError ''All models failed.'')"
  by (simp add: gateway_eval answering_once_def one_key_gateway_def)

theorem follow_up_decision_witness:
  "fst (process_answer (test_env (answering ''Could you give an example?'') (test_score (9 / 5) True) [])
          ''s1'' ''I am not sure'' [] (test_world test_session))
     = Inr (''Could you give an example?'', False)
   \<and> (\<exists>s'. sessions (snd (process_answer
                  (test_env (answering ''Could you give an example?'') (test_score (9 / 5) True) [])
                  ''s1'' ''I am not sure'' [] (test_world test_session))) ''s1'' = Some s'
          \<and> followed_up_questions s' = [1] \<and> current_question_index s' = 0)"
proof -
  let ?c = "''Could you give an example?''"
  let ?E = "test_env (answering ?c) (test_score (9 / 5) True) []"
  let ?g1 = "one_key_gateway\<lparr>history := [Attempt ''llama-3.3-70b-versatile'' 0 (Inr ?c)]\<rparr>"
  have h4: "generate_structured (provider ?E) score_prompt
              (score_user_content (test_question 1 ''Q1'' ''A'') ''I am not sure'') (score_model ?E)
              (gateway (test_world test_session)) = (Inr (test_score (9 / 5) True), ?g1)"
    by (simp add: test_env_facts test_session_facts one_key_answering)
  have h5: "generate_text (provider ?E) ''You are an interviewer.''
              (follow_up_prompt (test_question 1 ''Q1'' ''A'')) (7 / 10) ?g1
            = (Inr ?c, one_key_gateway\<lparr>history :=
                 [Attempt ''llama-3.3-70b-versatile'' 0 (Inr ?c)]
                 @ [Attempt ''llama-3.3-70b-versatile'' 0 (Inr ?c)]\<rparr>)"
    by (simp only: test_env_facts one_key_answering_text)
  have sc: "average_score (test_score (9 / 5) True) < 3" "needs_follow_up (test_score (9 / 5) True)"
    "qid (test_question 1 ''Q1'' ''A'') = 1"
    by (simp_all add: test_score_def test_question_def)
  from follow_up_decision [OF test_session_facts(1-3) h4 h5, of "[]"] sc
  show ?thesis
    by (auto simp: test_session_facts)
qed

text \<open>
  Claim C1 as stated fails: the answer is scored with average 1.8 and a follow-up wanted
  on a question not yet followed up, the provider fails when asked for the follow-up text,
  and the turn returns the next question with the cursor moved, the id being recorded.
\<close>

theorem follow_up_decision_counterexample:
  "average_score (test_score (9 / 5) True) < 3
   \<and> needs_follow_up (test_score (9 / 5) True)
   \<and> qid (test_question 1 ''Q1'' ''A'') \<notin> set (followed_up_questions test_session)
   \<and> fst (generate_structured (answering_once ''{}'') score_prompt
            (score_user_content (test_question 1 ''Q1'' ''A'') ''I am not sure'')
            (always ''AnswerScore'' (test_score (9 / 5) True)) one_key_gateway)
       = Inr (test_score (9 / 5) True)
   \<and> fst (process_answer (test_env (answering_once ''{}'') (test_score (9 / 5) True) [])
            ''s1'' ''I am not sure'' [] (test_world test_session)) = Inr (''Q2'', False)
   \<and> current_question_index (the (sessions (snd (process_answer
          (test_env (answering_once ''{}'') (test_score (9 / 5) True) [])
          ''s1'' ''I am not sure'' [] (test_world test_session))) ''s1'')) = 1
   \<and> followed_up_questions (the (sessions (snd (process_answer
          (test_env (answering_once ''{}'') (test_score (9 / 5) True) [])
          ''s1'' ''I am not sure'' [] (test_world test_session))) ''s1'')) = [1]"
proof -
  let ?E = "test_env (answering_once ''{}'') (test_score (9 / 5) True) []"
  let ?g1 = "one_key_gateway\<lparr>history := [Attempt ''llama-3.3-70b-versatile'' 0 (Inr ''{}'')]\<rparr>"
  let ?gt = "generate_text (provider ?E) ''You are an interviewer.''
              (follow_up_prompt (test_question 1 ''Q1'' ''A'')) (7 / 10) ?g1"
  have h4: "generate_structured (provider ?E) score_prompt
              (score_user_content (test_question 1 ''Q1'' ''A'') ''I am not sure'') (score_model ?E)
              (gateway (test_world test_session)) = (Inr (test_score (9 / 5) True), ?g1)"
    by (simp add: test_env_facts test_session_facts one_key_answering_once)
  have "fst ?gt = Inl (RuntimeError ''All models failed.'')"
    by (simp only: test_env_facts answering_once_later)
  then have h5: "?gt = (Inl (RuntimeError ''All models failed.''), snd ?gt)"
    by (metis prod.collapse)
  have sc: "average_score (test_score (9 / 5) True) < 3" "needs_follow_up (test_score (9 / 5) True)"
    "qid (test_question 1 ''Q1'' ''A'') = 1"
    by (simp_all add: test_score_def test_question_def)
  from scored_turn_outcome [OF test_session_facts(1-3) h4 h5, of "[]"] sc
  show ?thesis
    by (auto simp: test_session_facts one_key_answering_once)
qed

section \<open>Properties of the analysis pipeline\<close>

lemma startswith_append [simp]: "startswith (p @ s) p"
  by (induction p) simp_all



lemma analyze_documents_failure:
  assumes "sessions w sid = Some session"
    and "parse_cv E cv (gateway w) = (r_cv, g1)" and "parse_jd E jd g1 = (r_jd, g2)"
    and "gather r_cv r_jd = Inl e"
  shows "analyze_candidate E sid cv jd w
           = (Inl (RuntimeError (''Failed to analyze documents: '' @ str_of e)),
              store sid (session\<lparr>cv_text := cv, jd_text := jd, status := Setup\<rparr>) g2 w)"
  using assms by (simp add: analyze_candidate_def)



lemma analyze_success:
  assumes "sessions w sid = Some session"
    and "parse_cv E cv (gateway w) = (r_cv, g1)" and "parse_jd E jd g1 = (r_jd, g2)"
    and "gather r_cv r_jd = Inr (cv_data, jd_data)"
    and "generate_structured (provider E) gap_prompt
           (''CV: '' @ dump_cv E cv_data @ nl @ ''JD: '' @ dump_jd E jd_data) (gap_model E) g2
         = (Inr gap_data, g3)"
    and "generate_structured (provider E) q_prompt (''Gap Analysis: '' @ dump_gap E gap_data)
           (question_list_model E) g3 = (Inr q_list, g4)"
  shows "analyze_candidate E sid cv jd w
           = (Inr (Some cv_data, Some jd_data, Some gap_data, q_list),
              store sid (session\<lparr>cv_text := cv, jd_text := jd,
                                 cv_analysis := Some cv_data, jd_analysis := Some jd_data,
                                 gap_analysis := Some gap_data, questions := q_list,
                                 status := Ready\<rparr>)
                g4 w)"
  using assms by (simp add: analyze_candidate_def)






section \<open>Properties of the report\<close>















section \<open>Properties of runs\<close>

lemma turn_effect_refl [simp]: "turn_effect s s"
  by (simp add: turn_effect_def)

lemma list_index_in_set: "list_index xs i = Inr x \<Longrightarrow> x \<in> set xs"
  by (auto simp: list_index_def split: if_splits)

lemma create_session_sessions:
  "sessions (snd (create_session sid t w)) = (sessions w)(sid \<mapsto> new_session sid t)"
  by (simp add: create_session_def)

lemma get_next_question_effect:
  "case sessions w sid0 of
     Some s \<Rightarrow> (\<exists>s'. sessions (snd (get_next_question sid w)) sid0 = Some s' \<and> turn_effect s s')
   | None \<Rightarrow> sessions (snd (get_next_question sid w)) sid0 = None"
  by (auto simp: get_next_question_def store_def turn_effect_def
           split: option.splits sum.splits)

lemma generate_final_report_sessions:
  "sessions (snd (generate_final_report E sid w)) = sessions w"
  by (auto simp: generate_final_report_def split: option.splits sum.splits prod.splits)

lemma try_score_answer_effect:
  assumes "try_score_answer E q t s g = (r, s1, g1)"
  shows "questions s1 = questions s \<and> status s1 = status s
       \<and> current_question_index s1 = current_question_index s
       \<and> (followed_up_questions s1 = followed_up_questions s
          \<or> (qid q \<notin> set (followed_up_questions s)
             \<and> followed_up_questions s1 = followed_up_questions s @ [qid q]))"
  using assms
  by (auto simp: try_score_answer_def Let_def split: prod.splits sum.splits if_splits)

lemma process_answer_effect:
  "case sessions w sid0 of
     Some s \<Rightarrow> (\<exists>s'. sessions (snd (process_answer E sid t em w)) sid0 = Some s'
                  \<and> turn_effect s s')
   | None \<Rightarrow> sessions (snd (process_answer E sid t em w)) sid0 = None"
proof (cases "sessions w sid")
  case None
  then show ?thesis by (auto simp: process_answer_def split: option.splits)
next
  case (Some session)
  show ?thesis
  proof (cases "status session = Completed")
    case True
    with Some show ?thesis by (auto simp: process_answer_def split: option.splits)
  next
    case nc: False
    let ?s0 = "session\<lparr>eye_contact_logs := eye_contact_logs session @ em\<rparr>"
    show ?thesis
    proof (cases "list_index (questions session) (current_question_index session)")
      case (Inl e)
      with Some nc have "process_answer E sid t em w = (Inl e, store sid ?s0 (gateway w) w)"
        by (simp add: process_answer_def)
      with Some show ?thesis
        by (auto simp: store_def turn_effect_def split: option.splits)
    next
      case (Inr q)
      obtain r s1 g1 where ts: "try_score_answer E q t ?s0 (gateway w) = (r, s1, g1)"
        by (metis prod_cases3)
      note eff = try_score_answer_effect [OF ts]
      from Inr have qin: "q \<in> set (questions session)" by (rule list_index_in_set)
      have "\<exists>s'. sessions (snd (process_answer E sid t em w)) = (sessions w)(sid \<mapsto> s')
                  \<and> turn_effect session s'"
      proof (cases r)
        case (Some f)
        with ts have "process_answer E sid t em w = (Inr (f, False), store sid s1 g1 w)"
          using process_answer_scored [OF \<open>sessions w sid = Some session\<close> nc Inr] by simp
        moreover from eff qin have "turn_effect session s1"
          by (auto simp: turn_effect_def)
        ultimately show ?thesis by (auto simp: store_def)
      next
        case None
        from eff Inr have q1: "list_index (questions s1) (current_question_index s1) = Inr q"
          by simp
        from None ts have "process_answer E sid t em w = move_to_next_question sid s1 g1 w"
          using process_answer_scored [OF \<open>sessions w sid = Some session\<close> nc Inr] by simp
        then have "sessions (snd (process_answer E sid t em w))
            = (sessions w)(sid \<mapsto> s1\<lparr>current_question_index := current_question_index s1 + 1,
                  status := (if int (length (questions s1)) \<le> current_question_index s1 + 1
                             then Completed else status s1)\<rparr>)"
          by (simp add: move_to_next_question_result [OF q1] store_def)
        moreover from eff qin have
          "turn_effect session (s1\<lparr>current_question_index := current_question_index s1 + 1,
                  status := (if int (length (questions s1)) \<le> current_question_index s1 + 1
                             then Completed else status s1)\<rparr>)"
          by (auto simp: turn_effect_def)
        ultimately show ?thesis by blast
      qed
      with Some show ?thesis
        by (auto split: option.splits)
    qed
  qed
qed

lemma analyze_candidate_effect:
  "case sessions w sid0 of
     Some s \<Rightarrow> (\<exists>s'. sessions (snd (analyze_candidate E sid cv jd w)) sid0 = Some s'
                  \<and> (if sid0 = sid then analysis_effect s s' else s' = s))
   | None \<Rightarrow> sessions (snd (analyze_candidate E sid cv jd w)) sid0 = None"
  by (auto simp: analyze_candidate_def store_def analysis_effect_def Let_def
           split: option.splits sum.splits prod.splits)

lemma step_sessions:
  assumes "step b w w'"
  shows "case sessions w sid0 of
           Some s \<Rightarrow> (\<exists>s'. sessions w' sid0 = Some s'
                        \<and> (turn_effect s s' \<or> (analysis_effect s s' \<and> (b \<or> status s = Idle))))
         | None \<Rightarrow> sessions w' sid0 = None \<or> (\<exists>t. sessions w' sid0 = Some (new_session sid0 t))"
  using assms
proof cases
  case (create sid t)
  then show ?thesis
    by (auto simp: create_session_sessions split: option.splits)
next
  case (analyze sid E cv jd)
  with analyze_candidate_effect [where w = w and ?sid0.0 = sid0 and E = E and sid = sid and cv = cv and jd = jd] show ?thesis
    by (auto split: option.splits if_splits)
next
  case (next_question sid)
  with get_next_question_effect [where w = w and ?sid0.0 = sid0 and sid = sid] show ?thesis
    by (auto split: option.splits)
next
  case (answer E sid transcript eye_metrics)
  with process_answer_effect [where w = w and ?sid0.0 = sid0 and E = E and sid = sid and t = transcript and em = eye_metrics] show ?thesis
    by (auto split: option.splits)
next
  case (report E sid)
  then show ?thesis
    by (auto simp: generate_final_report_sessions split: option.splits)
qed

lemma step_weaken: "step False w w' \<Longrightarrow> step True w w'"
  by (induction "False" w w' rule: step.induct) (auto intro: step.intros)

lemma reachable_weaken: "reachable False w \<Longrightarrow> reachable True w"
  by (induction "False" w rule: reachable.induct) (auto intro: reachable.intros step_weaken)

lemma reachable_basic:
  assumes "reachable b w" and "sessions w sid = Some s"
  shows "distinct (followed_up_questions s) \<and> status s \<noteq> Interviewing \<and> status s \<noteq> Error"
  using assms
proof (induction arbitrary: sid s rule: reachable.induct)
  case (start api_keys g b)
  then show ?case by (simp add: initial_world_def)
next
  case (later b w w')
  from step_sessions [OF later.hyps(2), where ?sid0.0 = sid] later.prems later.IH [of sid]
  show ?case
    by (auto simp: turn_effect_def analysis_effect_def new_session_def split: option.splits)
qed

lemma reachable_restricted:
  assumes "reachable False w" and "sessions w sid = Some s"
  shows "set (followed_up_questions s) \<subseteq> qid ` set (questions s)
       \<and> (status s = Idle \<longrightarrow> questions s = [] \<and> followed_up_questions s = [])"
  using assms
proof (induction "False" w arbitrary: sid s rule: reachable.induct)
  case (start api_keys g)
  then show ?case by (simp add: initial_world_def)
next
  case (later w w')
  show ?case
  proof (cases "sessions w sid")
    case None
    with step_sessions [OF later.hyps(3), where ?sid0.0 = sid] later.prems show ?thesis
      by (auto simp: new_session_def)
  next
    case (Some s0)
    with step_sessions [OF later.hyps(3), where ?sid0.0 = sid] later.prems
    have eff: "turn_effect s0 s \<or> (analysis_effect s0 s \<and> status s0 = Idle)" by auto
    from later.hyps(2) [OF Some] have ih:
      "set (followed_up_questions s0) \<subseteq> qid ` set (questions s0)"
      "status s0 = Idle \<longrightarrow> questions s0 = [] \<and> followed_up_questions s0 = []" by auto
    from eff show ?thesis
    proof
      assume "turn_effect s0 s"
      with ih show ?thesis by (auto simp: turn_effect_def)
    next
      assume "analysis_effect s0 s \<and> status s0 = Idle"
      with ih show ?thesis by (auto simp: analysis_effect_def)
    qed
  qed
qed

lemma ledger_bound:
  assumes "distinct fu" and "set fu \<subseteq> qid ` set qs"
  shows "length fu \<le> length qs"
proof -
  from assms(1) have "length fu = card (set fu)" by (simp add: distinct_card)
  also from assms(2) have "\<dots> \<le> card (qid ` set qs)" by (simp add: card_mono)
  also have "\<dots> \<le> card (set qs)" by (simp add: card_image_le)
  also have "\<dots> \<le> length qs" by (rule card_length)
  finally show ?thesis .
qed

text \<open>
  Claim C2, as amended. In every run the followed-up list of a session has no duplicate,
  and every step keeps the list as a prefix of the new one, so that an id, once followed
  up, stays in the list and is not followed up again. In every run in which only idle
  sessions are analysed, the list is never longer than the list of questions.
\<close>

theorem follow_up_ledger:
  "(reachable True w \<and> sessions w sid = Some s \<longrightarrow> distinct (followed_up_questions s))
   \<and> (reachable False w \<and> sessions w sid = Some s \<longrightarrow>
        length (followed_up_questions s) \<le> length (questions s))
   \<and> (step True w w' \<and> sessions w sid = Some s \<longrightarrow>
        (\<exists>s'. sessions w' sid = Some s'
           \<and> prefix (followed_up_questions s) (followed_up_questions s')))"
proof (intro conjI impI)
  assume "reachable True w \<and> sessions w sid = Some s"
  then show "distinct (followed_up_questions s)" using reachable_basic by blast
next
  assume a: "reachable False w \<and> sessions w sid = Some s"
  then have "distinct (followed_up_questions s)"
    using reachable_basic by blast
  moreover from a have "set (followed_up_questions s) \<subseteq> qid ` set (questions s)"
    using reachable_restricted by blast
  ultimately show "length (followed_up_questions s) \<le> length (questions s)"
    by (rule ledger_bound)
next
  assume a: "step True w w' \<and> sessions w sid = Some s"
  with step_sessions [where b = True and w = w and w' = w' and ?sid0.0 = sid]
  show "\<exists>s'. sessions w' sid = Some s'
           \<and> prefix (followed_up_questions s) (followed_up_questions s')"
    by (auto simp: turn_effect_def analysis_effect_def)
qed

text \<open>
  Claim C4, as amended. In every run in which only idle sessions are analysed, no step
  moves the status of a session backward in the order idle, setup, ready, interviewing,
  completed. In every run the statuses interviewing and error do not occur. Of the four
  operations, \<^verbatim>\<open>analyze_candidate\<close> leaves the status setup or ready, whatever it was;
  \<^verbatim>\<open>get_next_question\<close> and \<^verbatim>\<open>process_answer\<close> keep it or set it to completed;
  \<^verbatim>\<open>generate_final_report\<close> leaves the session as it is.
\<close>

theorem status_transitions:
  "(reachable False w \<and> step False w w' \<and> sessions w sid = Some s \<longrightarrow>
      (\<exists>s'. sessions w' sid = Some s' \<and> status_rank (status s) \<le> status_rank (status s')))
   \<and> (reachable True w \<and> sessions w sid = Some s \<longrightarrow>
        status s \<noteq> Interviewing \<and> status s \<noteq> Error)
   \<and> (sessions w sid = Some s \<longrightarrow>
        (\<exists>s'. sessions (snd (analyze_candidate E sid cv jd w)) sid = Some s'
           \<and> (status s' = Setup \<or> status s' = Ready))
        \<and> (\<exists>s'. sessions (snd (get_next_question sid w)) sid = Some s'
           \<and> (status s' = status s \<or> status s' = Completed))
        \<and> (\<exists>s'. sessions (snd (process_answer E sid transcript eye_metrics w)) sid = Some s'
           \<and> (status s' = status s \<or> status s' = Completed))
        \<and> sessions (snd (generate_final_report E sid w)) sid = Some s)"
proof (intro conjI impI)
  assume a: "reachable False w \<and> step False w w' \<and> sessions w sid = Some s"
  then have ne: "status s \<noteq> Interviewing" "status s \<noteq> Error"
    using reachable_basic by blast+
  from a step_sessions [where b = False and w = w and w' = w' and ?sid0.0 = sid]
  obtain s' where s': "sessions w' sid = Some s'"
    "turn_effect s s' \<or> (analysis_effect s s' \<and> status s = Idle)" by auto
  from s'(2) ne have "status_rank (status s) \<le> status_rank (status s')"
    by (cases "status s") (auto simp: turn_effect_def analysis_effect_def)
  with s'(1) show "\<exists>s'. sessions w' sid = Some s'
                      \<and> status_rank (status s) \<le> status_rank (status s')" by blast
next
  assume "reachable True w \<and> sessions w sid = Some s"
  then show "status s \<noteq> Interviewing" "status s \<noteq> Error" using reachable_basic by blast+
next
  assume a: "sessions w sid = Some s"
  with analyze_candidate_effect [where w = w and ?sid0.0 = sid and E = E and sid = sid and cv = cv and jd = jd]
  show "\<exists>s'. sessions (snd (analyze_candidate E sid cv jd w)) sid = Some s'
           \<and> (status s' = Setup \<or> status s' = Ready)"
    by (auto simp: analysis_effect_def)
  from a get_next_question_effect [where w = w and ?sid0.0 = sid and sid = sid]
  show "\<exists>s'. sessions (snd (get_next_question sid w)) sid = Some s'
           \<and> (status s' = status s \<or> status s' = Completed)"
    by (auto simp: turn_effect_def)
  from a process_answer_effect [where w = w and ?sid0.0 = sid and E = E and sid = sid and t = transcript and em = eye_metrics]
  show "\<exists>s'. sessions (snd (process_answer E sid transcript eye_metrics w)) sid = Some s'
           \<and> (status s' = status s \<or> status s' = Completed)"
    by (auto simp: turn_effect_def)
  from a show "sessions (snd (generate_final_report E sid w)) sid = Some s"
    by (simp add: generate_final_report_sessions)
qed

lemma one_key_history: "one_key_gateway = one_key_gateway\<lparr>history := []\<rparr>"
  by (simp add: one_key_gateway_def)

lemma one_key_answering_h:
  "generate_structured (answering c) sp up (always n v) (one_key_gateway\<lparr>history := h\<rparr>)
     = (Inr v, one_key_gateway\<lparr>history := h @ [Attempt ''llama-3.3-70b-versatile'' 0 (Inr c)]\<rparr>)"
  using generate_structured_answering [of "one_key_gateway\<lparr>history := h\<rparr>" c sp up n v]
  by (simp add: one_key_gateway_def)

lemma test_env_models:
  "provider (test_env P sd qs) = P"
  "cv_model (test_env P sd qs) = always ''CVAnalysis'' test_cv"
  "jd_model (test_env P sd qs) = always ''JDAnalysis'' test_jd"
  "gap_model (test_env P sd qs) = always ''GapAnalysis'' test_gap"
  "question_list_model (test_env P sd qs) = always ''QuestionList'' qs"
  "score_model (test_env P sd qs) = always ''AnswerScore'' sd"
  by (simp_all add: test_env_def)

lemma analyze_answering:
  assumes "sessions w sid = Some s" and "gateway w = one_key_gateway\<lparr>history := h\<rparr>"
  shows "\<exists>h'. analyze_candidate (test_env (answering c) sd qs) sid cv jd w
           = (Inr (Some test_cv, Some test_jd, Some test_gap, qs),
              store sid (s\<lparr>cv_text := cv, jd_text := jd,
                            cv_analysis := Some test_cv, jd_analysis := Some test_jd,
                            gap_analysis := Some test_gap, questions := qs,
                            status := Ready\<rparr>)
                (one_key_gateway\<lparr>history := h'\<rparr>) w)"
proof -
  let ?E = "test_env (answering c) sd qs"
  let ?a = "Attempt ''llama-3.3-70b-versatile'' 0 (Inr c)"
  have c: "parse_cv ?E cv (gateway w)
             = (Inr test_cv, one_key_gateway\<lparr>history := h @ [?a]\<rparr>)"
    by (simp add: parse_cv_def test_env_models assms(2) one_key_answering_h)
  have j: "parse_jd ?E jd (one_key_gateway\<lparr>history := h @ [?a]\<rparr>)
             = (Inr test_jd, one_key_gateway\<lparr>history := (h @ [?a]) @ [?a]\<rparr>)"
    by (simp only: parse_jd_def test_env_models one_key_answering_h)
  have g: "gather (Inr test_cv) (Inr test_jd) = Inr (test_cv, test_jd)"
    by (simp add: gather_def)
  have gap: "generate_structured (provider ?E) gap_prompt
               (''CV: '' @ dump_cv ?E test_cv @ nl @ ''JD: '' @ dump_jd ?E test_jd) (gap_model ?E)
               (one_key_gateway\<lparr>history := (h @ [?a]) @ [?a]\<rparr>)
             = (Inr test_gap, one_key_gateway\<lparr>history := ((h @ [?a]) @ [?a]) @ [?a]\<rparr>)"
    by (simp only: test_env_models one_key_answering_h)
  have q: "generate_structured (provider ?E) q_prompt (''Gap Analysis: '' @ dump_gap ?E test_gap)
             (question_list_model ?E) (one_key_gateway\<lparr>history := ((h @ [?a]) @ [?a]) @ [?a]\<rparr>)
           = (Inr qs, one_key_gateway\<lparr>history := (((h @ [?a]) @ [?a]) @ [?a]) @ [?a]\<rparr>)"
    by (simp only: test_env_models one_key_answering_h)
  from analyze_success [OF assms(1) c j g gap q] show ?thesis by blast
qed

lemma follow_up_turn_answering:
  assumes "sessions w sid = Some s" and "gateway w = one_key_gateway\<lparr>history := h\<rparr>"
    and "status s \<noteq> Completed"
    and "list_index (questions s) (current_question_index s) = Inr q"
    and "average_score sd < 3" and "needs_follow_up sd"
    and "qid q \<notin> set (followed_up_questions s)"
  shows "\<exists>h'. process_answer (test_env (answering c) sd qs) sid t [] w
           = (Inr (c, False),
              store sid (s\<lparr>eye_contact_logs := eye_contact_logs s @ [],
                            scores := scores s @ [hydrate q t sd],
                            followed_up_questions := followed_up_questions s @ [qid q]\<rparr>)
                (one_key_gateway\<lparr>history := h'\<rparr>) w)"
proof -
  let ?E = "test_env (answering c) sd qs"
  let ?a = "Attempt ''llama-3.3-70b-versatile'' 0 (Inr c)"
  let ?s0 = "s\<lparr>eye_contact_logs := eye_contact_logs s @ []\<rparr>"
  have sc: "generate_structured (provider ?E) score_prompt (score_user_content q t)
              (score_model ?E) (gateway w)
            = (Inr sd, one_key_gateway\<lparr>history := h @ [?a]\<rparr>)"
    by (simp only: test_env_models assms(2) one_key_answering_h)
  have fu: "generate_text (provider ?E) ''You are an interviewer.'' (follow_up_prompt q) (7 / 10)
              (one_key_gateway\<lparr>history := h @ [?a]\<rparr>)
            = (Inr c, one_key_gateway\<lparr>history := (h @ [?a]) @ [?a]\<rparr>)"
    by (simp only: test_env_models one_key_answering_text)
  from assms(5-7) try_score_answer_scored [OF sc fu, of ?s0]
  have "try_score_answer ?E q t ?s0 (gateway w)
          = (Some c, s\<lparr>eye_contact_logs := eye_contact_logs s @ [],
                            scores := scores s @ [hydrate q t sd],
                            followed_up_questions := followed_up_questions s @ [qid q]\<rparr>,
             one_key_gateway\<lparr>history := (h @ [?a]) @ [?a]\<rparr>)"
    by simp
  with process_answer_scored [OF assms(1,3,4), of ?E t "[]"] show ?thesis
    by simp blast
qed

lemma advancing_turn_answering:
  assumes "sessions w sid = Some s" and "gateway w = one_key_gateway\<lparr>history := h\<rparr>"
    and "status s \<noteq> Completed"
    and "list_index (questions s) (current_question_index s) = Inr q"
    and "\<not> needs_follow_up sd"
  shows "\<exists>h'. process_answer (test_env (answering c) sd qs) sid t [] w
           = (Inr (next_utterance s),
              store sid (s\<lparr>eye_contact_logs := eye_contact_logs s @ [],
                            scores := scores s @ [hydrate q t sd],
                            current_question_index := current_question_index s + 1,
                            status := (if int (length (questions s)) \<le> current_question_index s + 1
                                       then Completed else status s)\<rparr>)
                (one_key_gateway\<lparr>history := h'\<rparr>) w)"
proof -
  let ?E = "test_env (answering c) sd qs"
  let ?a = "Attempt ''llama-3.3-70b-versatile'' 0 (Inr c)"
  let ?s0 = "s\<lparr>eye_contact_logs := eye_contact_logs s @ []\<rparr>"
  let ?s1 = "s\<lparr>eye_contact_logs := eye_contact_logs s @ [],
                 scores := scores s @ [hydrate q t sd]\<rparr>"
  have sc: "generate_structured (provider ?E) score_prompt (score_user_content q t)
              (score_model ?E) (gateway w)
            = (Inr sd, one_key_gateway\<lparr>history := h @ [?a]\<rparr>)"
    by (simp only: test_env_models assms(2) one_key_answering_h)
  have fu: "generate_text (provider ?E) ''You are an interviewer.'' (follow_up_prompt q) (7 / 10)
              (one_key_gateway\<lparr>history := h @ [?a]\<rparr>)
            = (Inr c, one_key_gateway\<lparr>history := (h @ [?a]) @ [?a]\<rparr>)"
    by (simp only: test_env_models one_key_answering_text)
  from assms(5) try_score_answer_scored [OF sc fu, of ?s0]
  have "try_score_answer ?E q t ?s0 (gateway w)
          = (None, ?s1, one_key_gateway\<lparr>history := h @ [?a]\<rparr>)"
    by simp
  with process_answer_scored [OF assms(1,3,4), of ?E t "[]"]
  have pa: "process_answer ?E sid t [] w
          = move_to_next_question sid ?s1 (one_key_gateway\<lparr>history := h @ [?a]\<rparr>) w"
    by simp
  have q1: "list_index (questions ?s1) (current_question_index ?s1) = Inr q"
    using assms(4) by simp
  have nu: "next_utterance ?s1 = next_utterance s"
    by (simp add: next_utterance_def Let_def cong: if_cong)
  show ?thesis
    unfolding pa move_to_next_question_result [OF q1] nu by simp blast
qed

lemma generate_structured_unavailable_h:
  "fst (generate_structured unavailable sp up rm (one_key_gateway\<lparr>history := h\<rparr>))
     = Inl (RuntimeError ''All models failed.'')"
proof -
  have t: "fst (generate_text unavailable sp' up (1 / 5) (one_key_gateway\<lparr>history := h\<rparr>))
             = Inl (RuntimeError ''All models failed.'')" for sp'
    by (simp add: gateway_eval unavailable_def one_key_gateway_def)
  obtain r g where rg: "generate_text unavailable
      (sp @ nl @ nl
       @ ''You must return a valid JSON object that strictly adheres to this schema:'' @ nl
       @ json_schema rm @ nl @ nl
       @ ''Return ONLY the JSON object. Do not wrap it in markdown code blocks.'' @ nl)
      up (1 / 5) (one_key_gateway\<lparr>history := h\<rparr>) = (r, g)"
    by (meson surj_pair)
  with t have "r = Inl (RuntimeError ''All models failed.'')"
    by (metis fst_conv)
  with rg show ?thesis by (simp add: generate_structured_def)
qed

lemma run_created_facts:
  "reachable b run_created"
  "sessions run_created ''s1'' = Some (new_session ''s1'' ''t0'')"
  "gateway run_created = one_key_gateway\<lparr>history := []\<rparr>"
proof -
  have "new_gateway [''gsk_a''] = Inr one_key_gateway"
    by (simp add: new_gateway_def one_key_gateway_def)
  then have "reachable b (initial_world one_key_gateway)" by (rule reachable.start)
  moreover have "step b (initial_world one_key_gateway) run_created"
    unfolding run_created_def by (rule step.create) (simp add: initial_world_def)
  ultimately show "reachable b run_created" by (rule reachable.later)
  show "sessions run_created ''s1'' = Some (new_session ''s1'' ''t0'')"
    by (simp add: run_created_def create_session_def)
  show "gateway run_created = one_key_gateway\<lparr>history := []\<rparr>"
    by (simp add: run_created_def create_session_def initial_world_def one_key_gateway_def)
qed

lemma run_analysed_facts:
  "step False run_created run_analysed"
  "reachable b run_analysed"
  "\<exists>h. gateway run_analysed = one_key_gateway\<lparr>history := h\<rparr>"
  "sessions run_analysed ''s1''
     = Some ((new_session ''s1'' ''t0'')\<lparr>cv_text := ''CV Text'', jd_text := ''JD Text'',
          cv_analysis := Some test_cv, jd_analysis := Some test_jd,
          gap_analysis := Some test_gap,
          questions := [test_question 1 ''Q1'' ''A'', test_question 2 ''Q2'' ''B''],
          status := Ready\<rparr>)"
proof -
  show st: "step False run_created run_analysed"
    unfolding run_analysed_def
    by (rule step.analyze) (simp add: run_created_facts new_session_def)
  have "step b run_created run_analysed"
    using st step_weaken by (cases b) auto
  with run_created_facts(1) show "reachable b run_analysed" by (rule reachable.later)
  from analyze_answering [OF run_created_facts(2,3),
         of "''{}''" "test_score (9 / 5) True"
            "[test_question 1 ''Q1'' ''A'', test_question 2 ''Q2'' ''B'']" "''CV Text''" "''JD Text''"]
  obtain h' where eq: "run_analysed
      = store ''s1'' ((new_session ''s1'' ''t0'')\<lparr>cv_text := ''CV Text'', jd_text := ''JD Text'',
          cv_analysis := Some test_cv, jd_analysis := Some test_jd,
          gap_analysis := Some test_gap,
          questions := [test_question 1 ''Q1'' ''A'', test_question 2 ''Q2'' ''B''],
          status := Ready\<rparr>) (one_key_gateway\<lparr>history := h'\<rparr>) run_created"
    unfolding run_analysed_def low_env_def by auto
  show "\<exists>h. gateway run_analysed = one_key_gateway\<lparr>history := h\<rparr>"
    unfolding eq by (simp add: store_def) (rule exI, rule refl)
  show "sessions run_analysed ''s1''
     = Some ((new_session ''s1'' ''t0'')\<lparr>cv_text := ''CV Text'', jd_text := ''JD Text'',
          cv_analysis := Some test_cv, jd_analysis := Some test_jd,
          gap_analysis := Some test_gap,
          questions := [test_question 1 ''Q1'' ''A'', test_question 2 ''Q2'' ''B''],
          status := Ready\<rparr>)"
    unfolding eq by (simp add: store_def)
qed

subsection \<open>Example runs\<close>

lemma test_data_facts:
  "average_score (test_score (9 / 5) True) < 3"
  "needs_follow_up (test_score (9 / 5) True)"
  "\<not> needs_follow_up (test_score (9 / 2) False)"
  "qid (test_question i q a) = i"
  "question (test_question i q a) = q"
  by (simp_all add: test_score_def test_question_def)

lemma run_followed_up_facts:
  "step b run_analysed run_followed_up"
  "reachable b run_followed_up"
  "\<exists>h. gateway run_followed_up = one_key_gateway\<lparr>history := h\<rparr>"
  "\<exists>s. sessions run_followed_up ''s1'' = Some s \<and> followed_up_questions s = [1]
        \<and> questions s = [test_question 1 ''Q1'' ''A'', test_question 2 ''Q2'' ''B'']
        \<and> current_question_index s = 0"
proof -
  let ?sA = "(new_session ''s1'' ''t0'')\<lparr>cv_text := ''CV Text'', jd_text := ''JD Text'',
          cv_analysis := Some test_cv, jd_analysis := Some test_jd,
          gap_analysis := Some test_gap,
          questions := [test_question 1 ''Q1'' ''A'', test_question 2 ''Q2'' ''B''],
          status := Ready\<rparr>"
  show st: "step b run_analysed run_followed_up"
    unfolding run_followed_up_def by (rule step.answer)
  with run_analysed_facts(2) show "reachable b run_followed_up" by (rule reachable.later)
  from run_analysed_facts(3) obtain h where g: "gateway run_analysed = one_key_gateway\<lparr>history := h\<rparr>"
    by blast
  have a: "status ?sA \<noteq> Completed"
    "list_index (questions ?sA) (current_question_index ?sA) = Inr (test_question 1 ''Q1'' ''A'')"
    "qid (test_question 1 ''Q1'' ''A'') \<notin> set (followed_up_questions ?sA)"
    by (simp_all add: new_session_def list_index_def)
  from follow_up_turn_answering [OF run_analysed_facts(4) g a(1,2) test_data_facts(1,2) a(3),
         of "''{}''" "[test_question 1 ''Q1'' ''A'', test_question 2 ''Q2'' ''B'']" "''I am not sure''"]
  obtain h' where eq: "run_followed_up
      = store ''s1'' (?sA\<lparr>eye_contact_logs := eye_contact_logs ?sA @ [],
            scores := scores ?sA @ [hydrate (test_question 1 ''Q1'' ''A'') ''I am not sure''
                                      (test_score (9 / 5) True)],
            followed_up_questions := followed_up_questions ?sA @ [qid (test_question 1 ''Q1'' ''A'')]\<rparr>)
          (one_key_gateway\<lparr>history := h'\<rparr>) run_analysed"
    unfolding run_followed_up_def low_env_def by auto
  show "\<exists>h. gateway run_followed_up = one_key_gateway\<lparr>history := h\<rparr>"
    unfolding eq by (simp add: store_def) (rule exI, rule refl)
  show "\<exists>s. sessions run_followed_up ''s1'' = Some s \<and> followed_up_questions s = [1]
        \<and> questions s = [test_question 1 ''Q1'' ''A'', test_question 2 ''Q2'' ''B'']
        \<and> current_question_index s = 0"
    unfolding eq by (simp add: store_def new_session_def test_data_facts)
qed

lemma run_reanalysed_facts:
  "reachable True run_reanalysed"
  "\<exists>s. sessions run_reanalysed ''s1'' = Some s \<and> followed_up_questions s = [1]
        \<and> questions s = []"
proof -
  have "step True run_followed_up run_reanalysed"
    unfolding run_reanalysed_def by (rule step.analyze) simp
  with run_followed_up_facts(2) show "reachable True run_reanalysed" by (rule reachable.later)
  from run_followed_up_facts(3) obtain h where
    g: "gateway run_followed_up = one_key_gateway\<lparr>history := h\<rparr>" by blast
  from run_followed_up_facts(4) obtain s where
    s: "sessions run_followed_up ''s1'' = Some s" "followed_up_questions s = [1]" by blast
  from analyze_answering [OF s(1) g, of "''{}''" "test_score (9 / 5) True" "[]" "''CV Text''" "''JD Text''"]
  obtain h' where eq: "run_reanalysed
      = store ''s1'' (s\<lparr>cv_text := ''CV Text'', jd_text := ''JD Text'',
          cv_analysis := Some test_cv, jd_analysis := Some test_jd,
          gap_analysis := Some test_gap, questions := [], status := Ready\<rparr>)
          (one_key_gateway\<lparr>history := h'\<rparr>) run_followed_up"
    unfolding run_reanalysed_def low_env_def by auto
  show "\<exists>s. sessions run_reanalysed ''s1'' = Some s \<and> followed_up_questions s = [1]
        \<and> questions s = []"
    unfolding eq by (simp add: store_def s(2))
qed

text \<open>
  Claim C2 as stated fails: after a follow-up on question 1, a second analysis that returns
  no question leaves one followed-up id and no question.
\<close>

theorem follow_up_ledger_counterexample:
  "reachable True run_reanalysed
   \<and> length (followed_up_questions (the (sessions run_reanalysed ''s1''))) = 1
   \<and> length (questions (the (sessions run_reanalysed ''s1''))) = 0"
  using run_reanalysed_facts by auto

theorem follow_up_ledger_witness:
  "reachable False run_followed_up \<and> step True run_analysed run_followed_up
   \<and> (\<exists>s. sessions run_followed_up ''s1'' = Some s
          \<and> followed_up_questions s = [1]
          \<and> distinct (followed_up_questions s)
          \<and> length (followed_up_questions s) \<le> length (questions s))
   \<and> (\<exists>s s'. sessions run_analysed ''s1'' = Some s \<and> sessions run_followed_up ''s1'' = Some s'
          \<and> prefix (followed_up_questions s) (followed_up_questions s'))"
proof -
  from run_followed_up_facts(4) obtain s' where
    s': "sessions run_followed_up ''s1'' = Some s'" "followed_up_questions s' = [1]" by blast
  note r = run_followed_up_facts(2) [of False] reachable_weaken [OF run_followed_up_facts(2) [of False]]
  note st = run_followed_up_facts(1) [of True]
  from follow_up_ledger [of run_followed_up "''s1''" s' run_followed_up] r s'
  have a: "distinct (followed_up_questions s')"
    "length (followed_up_questions s') \<le> length (questions s')" by blast+
  from follow_up_ledger [of run_analysed "''s1''" _ run_followed_up] st run_analysed_facts(4)
  have b: "\<exists>s s'. sessions run_analysed ''s1'' = Some s \<and> sessions run_followed_up ''s1'' = Some s'
          \<and> prefix (followed_up_questions s) (followed_up_questions s')" by blast
  from r(1) st s' a b show ?thesis by blast
qed

lemma run_interview_facts:
  "reachable b run_interview"
  "\<exists>h. gateway run_interview = one_key_gateway\<lparr>history := h\<rparr>"
  "sessions run_interview ''s1''
     = Some ((new_session ''s1'' ''t0'')\<lparr>cv_text := ''CV Text'', jd_text := ''JD Text'',
          cv_analysis := Some test_cv, jd_analysis := Some test_jd,
          gap_analysis := Some test_gap, questions := [test_question 1 ''Q1'' ''A''],
          status := Ready\<rparr>)"
proof -
  have "step False run_created run_interview"
    unfolding run_interview_def
    by (rule step.analyze) (simp add: run_created_facts new_session_def)
  then have "step b run_created run_interview"
    using step_weaken by (cases b) auto
  with run_created_facts(1) show "reachable b run_interview" by (rule reachable.later)
  from analyze_answering [OF run_created_facts(2,3),
         of "''{}''" "test_score (9 / 2) False" "[test_question 1 ''Q1'' ''A'']"
            "''CV Text''" "''JD Text''"]
  obtain h' where eq: "run_interview
      = store ''s1'' ((new_session ''s1'' ''t0'')\<lparr>cv_text := ''CV Text'', jd_text := ''JD Text'',
          cv_analysis := Some test_cv, jd_analysis := Some test_jd,
          gap_analysis := Some test_gap, questions := [test_question 1 ''Q1'' ''A''],
          status := Ready\<rparr>) (one_key_gateway\<lparr>history := h'\<rparr>) run_created"
    unfolding run_interview_def good_env_def by auto
  show "\<exists>h. gateway run_interview = one_key_gateway\<lparr>history := h\<rparr>"
    unfolding eq by (simp add: store_def) (rule exI, rule refl)
  show "sessions run_interview ''s1''
     = Some ((new_session ''s1'' ''t0'')\<lparr>cv_text := ''CV Text'', jd_text := ''JD Text'',
          cv_analysis := Some test_cv, jd_analysis := Some test_jd,
          gap_analysis := Some test_gap, questions := [test_question 1 ''Q1'' ''A''],
          status := Ready\<rparr>)"
    unfolding eq by (simp add: store_def)
qed

lemma run_finished_facts:
  "reachable b run_finished"
  "\<exists>h. gateway run_finished = one_key_gateway\<lparr>history := h\<rparr>"
  "\<exists>s. sessions run_finished ''s1'' = Some s \<and> status s = Completed"
proof -
  let ?sA = "(new_session ''s1'' ''t0'')\<lparr>cv_text := ''CV Text'', jd_text := ''JD Text'',
          cv_analysis := Some test_cv, jd_analysis := Some test_jd,
          gap_analysis := Some test_gap, questions := [test_question 1 ''Q1'' ''A''],
          status := Ready\<rparr>"
  have "step b run_interview run_finished"
    unfolding run_finished_def by (rule step.answer)
  with run_interview_facts(1) show "reachable b run_finished" by (rule reachable.later)
  from run_interview_facts(2) obtain h where
    g: "gateway run_interview = one_key_gateway\<lparr>history := h\<rparr>" by blast
  have a: "status ?sA \<noteq> Completed"
    "list_index (questions ?sA) (current_question_index ?sA) = Inr (test_question 1 ''Q1'' ''A'')"
    by (simp_all add: new_session_def list_index_def)
  from advancing_turn_answering [OF run_interview_facts(3) g a(1,2) test_data_facts(3),
         of "''{}''" "[test_question 1 ''Q1'' ''A'']" "''My Answer''"]
  obtain h' where eq: "run_finished
      = store ''s1'' (?sA\<lparr>eye_contact_logs := eye_contact_logs ?sA @ [],
            scores := scores ?sA @ [hydrate (test_question 1 ''Q1'' ''A'') ''My Answer''
                                      (test_score (9 / 2) False)],
            current_question_index := current_question_index ?sA + 1,
            status := (if int (length (questions ?sA)) \<le> current_question_index ?sA + 1
                       then Completed else status ?sA)\<rparr>)
          (one_key_gateway\<lparr>history := h'\<rparr>) run_interview"
    unfolding run_finished_def good_env_def by auto
  show "\<exists>h. gateway run_finished = one_key_gateway\<lparr>history := h\<rparr>"
    unfolding eq by (simp add: store_def) (rule exI, rule refl)
  show "\<exists>s. sessions run_finished ''s1'' = Some s \<and> status s = Completed"
    unfolding eq by (simp add: store_def new_session_def)
qed

text \<open>
  Claim C4 as stated fails: the session of a finished interview is completed, and an
  analysis of it, here with the provider down, leaves it in status setup.
\<close>

theorem status_transitions_counterexample:
  "reachable True run_finished
   \<and> status (the (sessions run_finished ''s1'')) = Completed
   \<and> status (the (sessions (snd (analyze_candidate (test_env unavailable (test_score 1 False) [])
                 ''s1'' ''CV Text'' ''JD Text'' run_finished)) ''s1'')) = Setup
   \<and> status_rank Setup < status_rank Completed"
proof -
  let ?E = "test_env unavailable (test_score 1 False) []"
  from run_finished_facts(3) obtain s where
    s: "sessions run_finished ''s1'' = Some s" "status s = Completed" by blast
  from run_finished_facts(2) obtain h where
    g: "gateway run_finished = one_key_gateway\<lparr>history := h\<rparr>" by blast
  let ?pc = "parse_cv ?E ''CV Text'' (gateway run_finished)"
  let ?pj = "parse_jd ?E ''JD Text'' (snd ?pc)"
  have "fst ?pc = Inl (RuntimeError ''All models failed.'')"
    by (simp add: parse_cv_def test_env_models g generate_structured_unavailable_h)
  then have c: "?pc = (Inl (RuntimeError ''All models failed.''), snd ?pc)"
    by (simp add: prod_eq_iff)
  have j: "?pj = (fst ?pj, snd ?pj)" by simp
  have ga: "gather (Inl (RuntimeError ''All models failed.'')) (fst ?pj)
             = Inl (RuntimeError ''All models failed.'')"
    by (simp add: gather_def)
  from analyze_documents_failure [OF s(1) c j ga]
  have "status (the (sessions (snd (analyze_candidate ?E ''s1'' ''CV Text'' ''JD Text''
          run_finished)) ''s1'')) = Setup"
    by (simp add: store_def)
  with run_finished_facts(1) [of True] s show ?thesis by simp
qed

theorem status_transitions_witness:
  "reachable False run_created \<and> step False run_created run_analysed
   \<and> (\<exists>s'. sessions run_analysed ''s1'' = Some s'
          \<and> status_rank (status (new_session ''s1'' ''t0'')) \<le> status_rank (status s'))
   \<and> status (new_session ''s1'' ''t0'') \<noteq> Interviewing
   \<and> status (new_session ''s1'' ''t0'') \<noteq> Error
   \<and> (\<exists>s'. sessions (snd (get_next_question ''s1'' run_created)) ''s1'' = Some s'
          \<and> (status s' = status (new_session ''s1'' ''t0'') \<or> status s' = Completed))"
proof -
  note t = status_transitions [of run_created run_analysed "''s1''" "new_session ''s1'' ''t0''"]
  note r = run_created_facts(1) [of False] run_created_facts(1) [of True]
  from t r run_analysed_facts(1) run_created_facts(2) show ?thesis by blast
qed

end
